theory Spec2Isabelle
  imports Complex_Main
begin

section \<open>Polygon intersection classifier: data model\<close>

text \<open>
  The repository holds one algorithm twice: \<^verbatim>\<open>polygon.c\<close> (procedural) and
  \<^verbatim>\<open>polygon.cpp\<close> (classes). Both are embedded below, function by function.

  Coordinates are C \<^verbatim>\<open>double\<close>s. There are two embeddings of the arithmetic.
  \<^item> In the first one a \<^verbatim>\<open>double\<close> is a \<^typ>\<open>real\<close>: every operation is exact, and there
    is no rounding, overflow, NaN or infinity. \<^verbatim>\<open>fabs\<close> and \<^verbatim>\<open>std::abs\<close> are \<open>abs\<close>,
    \<^verbatim>\<open>fmin\<close>/\<^verbatim>\<open>std::min\<close> are \<open>min\<close>, \<^verbatim>\<open>fmax\<close>/\<^verbatim>\<open>std::max\<close> are \<open>max\<close>. It serves
    for what the decision procedure does with the answers of its primitives, whatever
    these answers are, and for what holds in exact arithmetic.
  \<^item> In the second one, further down, a \<^verbatim>\<open>double\<close> is an IEEE 754 binary64 value and
    every operation rounds. It serves wherever rounding or overflow decides.

  The field names \<^verbatim>\<open>x\<close>, \<^verbatim>\<open>y\<close> of a point, \<^verbatim>\<open>a\<close>, \<^verbatim>\<open>b\<close>, \<^verbatim>\<open>c\<close> of a line
  and \<^verbatim>\<open>p1\<close>, \<^verbatim>\<open>p2\<close> of a segment carry a prefix here (\<open>px\<close>, \<open>py\<close>, \<open>la\<close>, \<open>lb\<close>,
  \<open>lc\<close>, \<open>sp1\<close>, \<open>sp2\<close>), so that the short names stay free for variables.
\<close>

record Point =
  px :: real
  py :: real

record Line =
  la :: real
  lb :: real
  lc :: real

record LineSegment =
  sp1 :: Point
  sp2 :: Point

text \<open>
  The C \<^verbatim>\<open>Polygon\<close> is a pointer to the vertices and their number, the C++ one a
  \<^verbatim>\<open>std::vector<Point>\<close>: a list, whose length is \<^verbatim>\<open>size\<close>.
\<close>

type_synonym Polygon = "Point list"

definition EPSILON :: real where
  "EPSILON = 1 / 1000000"

section \<open>polygon.c\<close>

subsection \<open>Utility functions\<close>

definition areEqual :: "real \<Rightarrow> real \<Rightarrow> bool" where
  "areEqual u v = (\<bar>u - v\<bar> < EPSILON)"

definition pointsEqual :: "Point \<Rightarrow> Point \<Rightarrow> bool" where
  "pointsEqual q1 q2 = (areEqual (px q1) (px q2) \<and> areEqual (py q1) (py q2))"

subsection \<open>Line functions\<close>

definition createLine :: "Point \<Rightarrow> Point \<Rightarrow> Line" where
  "createLine q1 q2 =
     \<lparr>la = py q2 - py q1,
      lb = px q1 - px q2,
      lc = px q2 * py q1 - px q1 * py q2\<rparr>"

definition lineContains :: "Line \<Rightarrow> Point \<Rightarrow> bool" where
  "lineContains line p = areEqual (la line * px p + lb line * py p + lc line) 0"

text \<open>
  \<^verbatim>\<open>lineIntersection\<close> returns \<^verbatim>\<open>false\<close> and leaves \<^verbatim>\<open>*result\<close> alone, or stores the
  point and returns \<^verbatim>\<open>true\<close>: \<open>None\<close>, or \<open>Some\<close> of the point stored.
\<close>

definition lineIntersection :: "Line \<Rightarrow> Line \<Rightarrow> Point option" where
  "lineIntersection line1 line2 =
     (let determinant = la line1 * lb line2 - la line2 * lb line1 in
      if areEqual determinant 0 then None
      else Some \<lparr>px = (lb line1 * lc line2 - lb line2 * lc line1) / determinant,
                 py = (la line2 * lc line1 - la line1 * lc line2) / determinant\<rparr>)"

subsection \<open>Line segment functions\<close>

definition segmentContains :: "LineSegment \<Rightarrow> Point \<Rightarrow> bool" where
  "segmentContains seg p =
     (let line = createLine (sp1 seg) (sp2 seg) in
      if \<not> lineContains line p then False
      else (min (px (sp1 seg)) (px (sp2 seg)) \<le> px p \<and> px p \<le> max (px (sp1 seg)) (px (sp2 seg))) \<and>
           (min (py (sp1 seg)) (py (sp2 seg)) \<le> py p \<and> py p \<le> max (py (sp1 seg)) (py (sp2 seg))))"

text \<open>
  \<^verbatim>\<open>segmentIntersection\<close> may return \<^verbatim>\<open>false\<close> after \<^verbatim>\<open>lineIntersection\<close> has stored
  a point; its only caller reads the point after \<^verbatim>\<open>true\<close> alone, so \<open>None\<close> stands for
  every \<^verbatim>\<open>false\<close>.
\<close>

definition segmentIntersection :: "LineSegment \<Rightarrow> LineSegment \<Rightarrow> Point option" where
  "segmentIntersection seg1 seg2 =
     (let line1 = createLine (sp1 seg1) (sp2 seg1);
          line2 = createLine (sp1 seg2) (sp2 seg2) in
      case lineIntersection line1 line2 of
        None \<Rightarrow> None
      | Some result \<Rightarrow>
          if segmentContains seg1 result \<and> segmentContains seg2 result then Some result else None)"

subsection \<open>Helper functions for polygon\<close>

text \<open>Edge \<open>i\<close> runs from vertex \<open>i\<close> to vertex \<open>(i + 1) % size\<close>.\<close>

definition getEdges :: "Polygon \<Rightarrow> LineSegment list" where
  "getEdges poly =
     map (\<lambda>i. \<lparr>sp1 = poly ! i, sp2 = poly ! ((i + 1) mod length poly)\<rparr>) [0..<length poly]"

definition areCollinear :: "LineSegment \<Rightarrow> LineSegment \<Rightarrow> bool" where
  "areCollinear seg1 seg2 =
     (let line = createLine (sp1 seg1) (sp2 seg1) in
      lineContains line (sp1 seg2) \<and> lineContains line (sp2 seg2))"

definition isBetween :: "real \<Rightarrow> real \<Rightarrow> real \<Rightarrow> bool" where
  "isBetween u v w = (min u v \<le> w \<and> w \<le> max u v)"

definition edgesOverlap :: "LineSegment \<Rightarrow> LineSegment \<Rightarrow> bool" where
  "edgesOverlap seg1 seg2 =
     ((isBetween (px (sp1 seg1)) (px (sp2 seg1)) (px (sp1 seg2)) \<or>
       isBetween (px (sp1 seg1)) (px (sp2 seg1)) (px (sp2 seg2)) \<or>
       isBetween (px (sp1 seg2)) (px (sp2 seg2)) (px (sp1 seg1)) \<or>
       isBetween (px (sp1 seg2)) (px (sp2 seg2)) (px (sp2 seg1))) \<and>
      (isBetween (py (sp1 seg1)) (py (sp2 seg1)) (py (sp1 seg2)) \<or>
       isBetween (py (sp1 seg1)) (py (sp2 seg1)) (py (sp2 seg2)) \<or>
       isBetween (py (sp1 seg2)) (py (sp2 seg2)) (py (sp1 seg1)) \<or>
       isBetween (py (sp1 seg2)) (py (sp2 seg2)) (py (sp2 seg1))))"

subsection \<open>Point in polygon\<close>

text \<open>
  The loop of \<^verbatim>\<open>polygonContains\<close> over the indices still to visit, with the counter
  as accumulator. \<^verbatim>\<open>return true\<close> ends the recursion, \<^verbatim>\<open>continue\<close> goes on with the
  counter unchanged, and the end of the loop returns \<^verbatim>\<open>count % 2 == 1\<close>.
\<close>

fun polygonContains_loop :: "Polygon \<Rightarrow> Point \<Rightarrow> nat list \<Rightarrow> nat \<Rightarrow> bool" where
  "polygonContains_loop poly p [] count = (count mod 2 = 1)"
| "polygonContains_loop poly p (i # rest) count =
     (let v1 = poly ! i;
          v2 = poly ! ((i + 1) mod length poly);
          edge = \<lparr>sp1 = v1, sp2 = v2\<rparr> in
      if segmentContains edge p then True
      else if areEqual (py v1) (py v2) then polygonContains_loop poly p rest count
      else if py p < min (py v1) (py v2) \<or> py p > max (py v1) (py v2)
        then polygonContains_loop poly p rest count
      else
        (let xIntersect = (py p - py v1) * (px v2 - px v1) / (py v2 - py v1) + px v1 in
         if areEqual xIntersect (px p) then True
         else if xIntersect > px p then polygonContains_loop poly p rest (count + 1)
         else polygonContains_loop poly p rest count))"

definition polygonContains :: "Polygon \<Rightarrow> Point \<Rightarrow> bool" where
  "polygonContains poly p = polygonContains_loop poly p [0..<length poly] 0"

subsection \<open>Classification\<close>

text \<open>The two flags that the loops of \<^verbatim>\<open>classifyPolygons\<close> set.\<close>

record flags =
  isTouching :: bool
  isIntersecting :: bool

text \<open>The body of the first nested loop, at indices \<open>i\<close> and \<open>j\<close>.\<close>

definition classify_body1 ::
  "LineSegment list \<Rightarrow> LineSegment list \<Rightarrow> Polygon \<Rightarrow> nat \<Rightarrow> nat \<Rightarrow> flags \<Rightarrow> flags" where
  "classify_body1 edges1 edges2 poly2 i j fl =
     (let fl1 = (if segmentContains (edges1 ! i) (poly2 ! j)
                 then fl\<lparr>isTouching := True\<rparr> else fl);
          fl2 = (if areCollinear (edges1 ! i) (edges2 ! j) \<and> edgesOverlap (edges1 ! i) (edges2 ! j)
                 then fl1\<lparr>isTouching := True\<rparr> else fl1) in
      case segmentIntersection (edges1 ! i) (edges2 ! j) of
        None \<Rightarrow> fl2
      | Some intersectionPoint \<Rightarrow>
          if \<not> pointsEqual intersectionPoint (sp1 (edges1 ! i)) \<and>
             \<not> pointsEqual intersectionPoint (sp2 (edges1 ! i)) \<and>
             \<not> pointsEqual intersectionPoint (sp1 (edges2 ! j)) \<and>
             \<not> pointsEqual intersectionPoint (sp2 (edges2 ! j))
          then fl2\<lparr>isIntersecting := True\<rparr> else fl2)"

text \<open>The body of the second nested loop.\<close>

definition classify_body2 :: "LineSegment list \<Rightarrow> Polygon \<Rightarrow> nat \<Rightarrow> nat \<Rightarrow> flags \<Rightarrow> flags" where
  "classify_body2 edges2 poly1 i j fl =
     (if segmentContains (edges2 ! i) (poly1 ! j) then fl\<lparr>isTouching := True\<rparr> else fl)"

text \<open>
  Both nested loops run every iteration (they have no \<^verbatim>\<open>break\<close>): a fold over the
  indices of the outer loop of a fold over the indices of the inner one.
\<close>

definition classify_flags :: "Polygon \<Rightarrow> Polygon \<Rightarrow> flags" where
  "classify_flags poly1 poly2 =
     (let edges1 = getEdges poly1;
          edges2 = getEdges poly2;
          fl0 = \<lparr>isTouching = False, isIntersecting = False\<rparr>;
          fl1 = fold (\<lambda>i. fold (classify_body1 edges1 edges2 poly2 i) [0..<length poly2])
                  [0..<length poly1] fl0 in
      fold (\<lambda>i. fold (classify_body2 edges2 poly1 i) [0..<length poly1])
        [0..<length poly2] fl1)"

text \<open>
  The two containment loops: the flag starts \<^verbatim>\<open>true\<close>, and the first vertex outside
  clears it and leaves the loop.
\<close>

fun allInside_loop :: "Polygon \<Rightarrow> Polygon \<Rightarrow> nat list \<Rightarrow> bool" where
  "allInside_loop outer inner [] = True"
| "allInside_loop outer inner (i # rest) =
     (if \<not> polygonContains outer (inner ! i) then False
      else allInside_loop outer inner rest)"

definition classifyPolygons :: "Polygon \<Rightarrow> Polygon \<Rightarrow> string" where
  "classifyPolygons poly1 poly2 =
     (let fl = classify_flags poly1 poly2 in
      if isIntersecting fl then ''Intersecting''
      else if isTouching fl then ''Touching''
      else
        (let thisInsideOther = allInside_loop poly2 poly1 [0..<length poly1];
             otherInsideThis = allInside_loop poly1 poly2 [0..<length poly2] in
         if thisInsideOther \<or> otherInsideThis then ''Disjoint (Enclosed)''
         else ''Disjoint (Outside)''))"

section \<open>polygon.cpp\<close>

text \<open>
  The classes of \<^verbatim>\<open>polygon.cpp\<close>, one definition for each member function, named
  \<open>Class_member\<close>. The free function \<^verbatim>\<open>areEqual\<close> of this file is the one of
  \<^verbatim>\<open>polygon.c\<close> with \<^verbatim>\<open>std::abs\<close> for \<^verbatim>\<open>fabs\<close>.
\<close>

definition areEqual_cpp :: "real \<Rightarrow> real \<Rightarrow> bool" where
  "areEqual_cpp u v = (\<bar>u - v\<bar> < EPSILON)"

text \<open>\<^verbatim>\<open>Point::operator==\<close>\<close>

definition Point_eq :: "Point \<Rightarrow> Point \<Rightarrow> bool" where
  "Point_eq this other = (areEqual_cpp (px this) (px other) \<and> areEqual_cpp (py this) (py other))"

text \<open>The constructor \<^verbatim>\<open>Line(p1, p2)\<close>\<close>

definition Line_ctor :: "Point \<Rightarrow> Point \<Rightarrow> Line" where
  "Line_ctor q1 q2 =
     \<lparr>la = py q2 - py q1,
      lb = px q1 - px q2,
      lc = px q2 * py q1 - px q1 * py q2\<rparr>"

definition Line_contains :: "Line \<Rightarrow> Point \<Rightarrow> bool" where
  "Line_contains this p = areEqual_cpp (la this * px p + lb this * py p + lc this) 0"

definition Line_intersection :: "Line \<Rightarrow> Line \<Rightarrow> Point option" where
  "Line_intersection this other =
     (let determinant = la this * lb other - la other * lb this in
      if areEqual_cpp determinant 0 then None
      else Some \<lparr>px = (lb this * lc other - lb other * lc this) / determinant,
                 py = (la other * lc this - la this * lc other) / determinant\<rparr>)"

definition LineSegment_contains :: "LineSegment \<Rightarrow> Point \<Rightarrow> bool" where
  "LineSegment_contains this p =
     (let line = Line_ctor (sp1 this) (sp2 this) in
      if \<not> Line_contains line p then False
      else (min (px (sp1 this)) (px (sp2 this)) \<le> px p \<and> px p \<le> max (px (sp1 this)) (px (sp2 this))) \<and>
           (min (py (sp1 this)) (py (sp2 this)) \<le> py p \<and> py p \<le> max (py (sp1 this)) (py (sp2 this))))"

definition LineSegment_intersection :: "LineSegment \<Rightarrow> LineSegment \<Rightarrow> Point option" where
  "LineSegment_intersection this other =
     (let line1 = Line_ctor (sp1 this) (sp2 this);
          line2 = Line_ctor (sp1 other) (sp2 other) in
      case Line_intersection line1 line2 of
        None \<Rightarrow> None
      | Some result \<Rightarrow>
          if LineSegment_contains this result \<and> LineSegment_contains other result
          then Some result else None)"

definition Polygon_getEdges :: "Polygon \<Rightarrow> LineSegment list" where
  "Polygon_getEdges vertices =
     (let n = length vertices in
      map (\<lambda>i. \<lparr>sp1 = vertices ! i, sp2 = vertices ! ((i + 1) mod n)\<rparr>) [0..<n])"

fun Polygon_contains_loop :: "Polygon \<Rightarrow> Point \<Rightarrow> nat list \<Rightarrow> nat \<Rightarrow> bool" where
  "Polygon_contains_loop vertices p [] count = (count mod 2 = 1)"
| "Polygon_contains_loop vertices p (i # rest) count =
     (let v1 = vertices ! i;
          v2 = vertices ! ((i + 1) mod length vertices);
          edge = \<lparr>sp1 = v1, sp2 = v2\<rparr> in
      if LineSegment_contains edge p then True
      else if areEqual_cpp (py v1) (py v2) then Polygon_contains_loop vertices p rest count
      else if py p < min (py v1) (py v2) \<or> py p > max (py v1) (py v2)
        then Polygon_contains_loop vertices p rest count
      else
        (let xIntersect = (py p - py v1) * (px v2 - px v1) / (py v2 - py v1) + px v1 in
         if areEqual_cpp xIntersect (px p) then True
         else if xIntersect > px p then Polygon_contains_loop vertices p rest (count + 1)
         else Polygon_contains_loop vertices p rest count))"

definition Polygon_contains :: "Polygon \<Rightarrow> Point \<Rightarrow> bool" where
  "Polygon_contains vertices p = Polygon_contains_loop vertices p [0..<length vertices] 0"

definition Polygon_areCollinear :: "LineSegment \<Rightarrow> LineSegment \<Rightarrow> bool" where
  "Polygon_areCollinear seg1 seg2 =
     (let line1 = Line_ctor (sp1 seg1) (sp2 seg1) in
      Line_contains line1 (sp1 seg2) \<and> Line_contains line1 (sp2 seg2))"

definition Polygon_edgesOverlap :: "LineSegment \<Rightarrow> LineSegment \<Rightarrow> bool" where
  "Polygon_edgesOverlap seg1 seg2 =
     (let isBetween = (\<lambda>u v w. min u v \<le> w \<and> w \<le> max u v) in
      (isBetween (px (sp1 seg1)) (px (sp2 seg1)) (px (sp1 seg2)) \<or>
       isBetween (px (sp1 seg1)) (px (sp2 seg1)) (px (sp2 seg2)) \<or>
       isBetween (px (sp1 seg2)) (px (sp2 seg2)) (px (sp1 seg1)) \<or>
       isBetween (px (sp1 seg2)) (px (sp2 seg2)) (px (sp2 seg1))) \<and>
      (isBetween (py (sp1 seg1)) (py (sp2 seg1)) (py (sp1 seg2)) \<or>
       isBetween (py (sp1 seg1)) (py (sp2 seg1)) (py (sp2 seg2)) \<or>
       isBetween (py (sp1 seg2)) (py (sp2 seg2)) (py (sp1 seg1)) \<or>
       isBetween (py (sp1 seg2)) (py (sp2 seg2)) (py (sp2 seg1))))"

text \<open>
  The inner loops of \<^verbatim>\<open>Polygon::classify\<close>. Each takes the flag as it stands and
  returns it updated; \<^verbatim>\<open>break\<close> leaves the inner loop with the flag set, and the
  outer loop goes on with the next edge.
\<close>

fun touch_vertices :: "LineSegment \<Rightarrow> Point list \<Rightarrow> bool \<Rightarrow> bool" where
  "touch_vertices edge [] touching = touching"
| "touch_vertices edge (vertex # rest) touching =
     (if LineSegment_contains edge vertex then True
      else touch_vertices edge rest touching)"

fun touch_edges :: "LineSegment \<Rightarrow> LineSegment list \<Rightarrow> bool \<Rightarrow> bool" where
  "touch_edges edge1 [] touching = touching"
| "touch_edges edge1 (edge2 # rest) touching =
     (if Polygon_areCollinear edge1 edge2 \<and> Polygon_edgesOverlap edge1 edge2 then True
      else touch_edges edge1 rest touching)"

fun cross_edges :: "LineSegment \<Rightarrow> LineSegment list \<Rightarrow> bool \<Rightarrow> bool" where
  "cross_edges edge1 [] intersecting = intersecting"
| "cross_edges edge1 (edge2 # rest) intersecting =
     (case LineSegment_intersection edge1 edge2 of
        None \<Rightarrow> cross_edges edge1 rest intersecting
      | Some intersectionPoint \<Rightarrow>
          if \<not> Point_eq (sp1 edge1) intersectionPoint \<and>
             \<not> Point_eq (sp2 edge1) intersectionPoint \<and>
             \<not> Point_eq (sp1 edge2) intersectionPoint \<and>
             \<not> Point_eq (sp2 edge2) intersectionPoint
          then True
          else cross_edges edge1 rest intersecting)"

text \<open>The containment loops: the first vertex not contained clears the flag and breaks.\<close>

fun all_contained :: "Polygon \<Rightarrow> Point list \<Rightarrow> bool" where
  "all_contained poly [] = True"
| "all_contained poly (vertex # rest) =
     (if \<not> Polygon_contains poly vertex then False else all_contained poly rest)"

text \<open>\<^verbatim>\<open>Polygon::classify\<close>; \<open>vertices\<close> are those of \<^verbatim>\<open>*this\<close>.\<close>

definition Polygon_classify :: "Polygon \<Rightarrow> Polygon \<Rightarrow> string" where
  "Polygon_classify vertices other =
     (let edges1 = Polygon_getEdges vertices;
          edges2 = Polygon_getEdges other;
          t0 = False;
          t1 = fold (\<lambda>edge1. touch_vertices edge1 other) edges1 t0;
          t2 = fold (\<lambda>edge2. touch_vertices edge2 vertices) edges2 t1;
          t3 = fold (\<lambda>edge1. touch_edges edge1 edges2) edges1 t2;
          x1 = fold (\<lambda>edge1. cross_edges edge1 edges2) edges1 False in
      if x1 then ''Intersecting''
      else if t3 then ''Touching''
      else
        (let thisInsideOther = all_contained other vertices;
             otherInsideThis = all_contained vertices other in
         if thisInsideOther \<or> otherInsideThis then ''Disjoint (Enclosed)''
         else ''Disjoint (Outside)''))"

section \<open>Notions of the specification\<close>

text \<open>
  An edge pair has an interior crossing when the two segments have an intersection point
  (\<^verbatim>\<open>segmentIntersection\<close>) that is not equal, within \<open>EPSILON\<close>, to any of the four
  endpoints.
\<close>

definition interiorCrossing :: "LineSegment \<Rightarrow> LineSegment \<Rightarrow> bool" where
  "interiorCrossing e1 e2 =
     (case segmentIntersection e1 e2 of
        None \<Rightarrow> False
      | Some p \<Rightarrow> \<not> pointsEqual p (sp1 e1) \<and> \<not> pointsEqual p (sp2 e1) \<and>
                  \<not> pointsEqual p (sp1 e2) \<and> \<not> pointsEqual p (sp2 e2))"

text \<open>Some edge of \<open>A\<close> and some edge of \<open>B\<close> have an interior crossing.\<close>

definition crossing :: "Polygon \<Rightarrow> Polygon \<Rightarrow> bool" where
  "crossing A B = (\<exists>e1\<in>set (getEdges A). \<exists>e2\<in>set (getEdges B). interiorCrossing e1 e2)"

text \<open>Some vertex of \<open>B\<close> lies on some edge of \<open>A\<close>.\<close>

definition vertexOnEdge :: "Polygon \<Rightarrow> Polygon \<Rightarrow> bool" where
  "vertexOnEdge A B = (\<exists>e\<in>set (getEdges A). \<exists>v\<in>set B. segmentContains e v)"

text \<open>
  The bounding boxes of two segments overlap on the x axis and on the y axis: on each
  axis, the two closed intervals that the segments span have a common point.
\<close>

definition intervalsOverlap :: "real \<Rightarrow> real \<Rightarrow> real \<Rightarrow> real \<Rightarrow> bool" where
  "intervalsOverlap u1 u2 w1 w2 = (max (min u1 u2) (min w1 w2) \<le> min (max u1 u2) (max w1 w2))"

definition boxesOverlap :: "LineSegment \<Rightarrow> LineSegment \<Rightarrow> bool" where
  "boxesOverlap e1 e2 =
     (intervalsOverlap (px (sp1 e1)) (px (sp2 e1)) (px (sp1 e2)) (px (sp2 e2)) \<and>
      intervalsOverlap (py (sp1 e1)) (py (sp2 e1)) (py (sp1 e2)) (py (sp2 e2)))"

text \<open>
  Collinearity with the direction left open: both endpoints of one of the two segments
  lie, within \<open>EPSILON\<close>, on the line through the other.
\<close>

definition collinearEither :: "LineSegment \<Rightarrow> LineSegment \<Rightarrow> bool" where
  "collinearEither e1 e2 = (areCollinear e1 e2 \<or> areCollinear e2 e1)"

text \<open>
  Some edge of \<open>A\<close> and some edge of \<open>B\<close> pass the collinearity test of the source, which
  takes the line through the first segment and the endpoints of the second, and their
  bounding boxes overlap.
\<close>

definition collinearContact :: "Polygon \<Rightarrow> Polygon \<Rightarrow> bool" where
  "collinearContact A B =
     (\<exists>e1\<in>set (getEdges A). \<exists>e2\<in>set (getEdges B). areCollinear e1 e2 \<and> boxesOverlap e1 e2)"

text \<open>Every vertex of \<open>A\<close> passes the point-in-polygon test of \<open>B\<close>.\<close>

definition verticesInside :: "Polygon \<Rightarrow> Polygon \<Rightarrow> bool" where
  "verticesInside A B = (\<forall>v\<in>set A. polygonContains B v)"

text \<open>
  The point \<open>p\<close> lies exactly on the closed segment from \<open>u\<close> to \<open>v\<close>.
\<close>

definition on_segment :: "Point \<Rightarrow> Point \<Rightarrow> Point \<Rightarrow> bool" where
  "on_segment u v p =
     (\<exists>t. 0 \<le> t \<and> t \<le> 1 \<and>
          px p = px u + t * (px v - px u) \<and> py p = py u + t * (py v - py u))"

text \<open>
  A simple polygon: the vertices are pairwise distinct, and two different edges have a
  common point only if they are consecutive, and then only the vertex they share.
\<close>

definition simple_polygon :: "Polygon \<Rightarrow> bool" where
  "simple_polygon poly =
     (let n = length poly in
      distinct poly \<and>
      (\<forall>i<n. \<forall>j<n. i \<noteq> j \<longrightarrow>
         (\<forall>p. on_segment (poly ! i) (poly ! ((i + 1) mod n)) p \<and>
              on_segment (poly ! j) (poly ! ((j + 1) mod n)) p \<longrightarrow>
              (j = (i + 1) mod n \<and> p = poly ! j) \<or> (i = (j + 1) mod n \<and> p = poly ! i))))"

section \<open>Example polygons\<close>

text \<open>A right triangle, a small triangle inside it, and a triangle that cuts through it.\<close>

definition tri_outer :: Polygon where
  "tri_outer = [\<lparr>px = 0, py = 0\<rparr>, \<lparr>px = 8, py = 0\<rparr>, \<lparr>px = 0, py = 8\<rparr>]"

definition tri_inner :: Polygon where
  "tri_inner = [\<lparr>px = 1, py = 1\<rparr>, \<lparr>px = 2, py = 1\<rparr>, \<lparr>px = 1, py = 2\<rparr>]"

definition tri_cut :: Polygon where
  "tri_cut = [\<lparr>px = 2, py = - 2\<rparr>, \<lparr>px = 6, py = - 2\<rparr>, \<lparr>px = 2, py = 2\<rparr>]"

text \<open>
  A large triangle below the diagonal \<open>y = x\<close>, and a small one just above the diagonal,
  at distance about \<open>0.00007\<close>, whose first edge is parallel to it.
\<close>

definition tri_large :: Polygon where
  "tri_large = [\<lparr>px = 0, py = 0\<rparr>, \<lparr>px = 1000, py = 1000\<rparr>, \<lparr>px = 1000, py = 0\<rparr>]"

definition tri_tiny :: Polygon where
  "tri_tiny = [\<lparr>px = 500, py = 500 + 1 / 10000\<rparr>,
               \<lparr>px = 500 + 1 / 1000, py = 500 + 1 / 1000 + 1 / 10000\<rparr>,
               \<lparr>px = 500, py = 500 + 1 / 100\<rparr>]"

text \<open>
  Polygons with large integer coordinates, all of them exactly representable as
  \<^verbatim>\<open>double\<close>s: a thin simple triangle, and a simple quadrilateral whose first edge is
  horizontal. \<open>huge\<close> is a power of two whose square overflows.
\<close>

definition tri_thin :: Polygon where
  "tri_thin = [\<lparr>px = - 134217727, py = 134217728\<rparr>, \<lparr>px = 134217728, py = - 134217727\<rparr>,
               \<lparr>px = - 134217727, py = 134217727\<rparr>]"

definition quad_far :: Polygon where
  "quad_far = [\<lparr>px = 2, py = 17179869185\<rparr>, \<lparr>px = 524291, py = 17179869185\<rparr>,
               \<lparr>px = 524291, py = 17179869187\<rparr>, \<lparr>px = 524293, py = 17179869183\<rparr>]"

definition huge :: real where
  "huge = 2 ^ 600"

section \<open>Binary64 arithmetic\<close>

text \<open>
  A \<^verbatim>\<open>double\<close> is a finite value, an infinity or NaN. An arithmetic operation on finite
  operands computes the exact result and rounds it once to the nearest double, ties to
  even, which is the default rounding of IEEE 754; a result too large is an infinity.
  No intermediate result is kept in a wider format, and no multiplication is fused with an
  addition: each operator of the source is one operation.

  The sign of zero is not modelled (a zero counts as \<open>+0\<close>): comparisons do not see it,
  and the program never divides by a zero, as the guards of its divisions show. NaNs are
  not told apart.
\<close>

datatype double = Finite real | PosInf | NegInf | NaN

text \<open>The number of bits of a positive integer.\<close>

function bitlen :: "int \<Rightarrow> nat" where
  "bitlen n = (if n \<le> 0 then 0 else Suc (bitlen (n div 2)))"
  by pat_completeness auto
termination
  by (relation "measure nat") auto

declare bitlen.simps [simp del]

text \<open>
  The exponent of a positive real: the integer \<open>e\<close> with \<open>2 ^ e \<le> x < 2 ^ (e + 1)\<close>.
\<close>

definition ilog2 :: "real \<Rightarrow> int" where
  "ilog2 x = (if 1 \<le> x then int (bitlen \<lfloor>x\<rfloor>) - 1
              else - int (bitlen (\<lceil>1 / x\<rceil> - 1)))"

definition pow2 :: "int \<Rightarrow> real" where
  "pow2 k = (if 0 \<le> k then 2 ^ nat k else 1 / 2 ^ nat (- k))"

text \<open>The nearest integer, a tie going to the even one.\<close>

definition round_even :: "real \<Rightarrow> int" where
  "round_even x =
     (if x - of_int \<lfloor>x\<rfloor> < 1 / 2 then \<lfloor>x\<rfloor>
      else if 1 / 2 < x - of_int \<lfloor>x\<rfloor> then \<lfloor>x\<rfloor> + 1
      else if even \<lfloor>x\<rfloor> then \<lfloor>x\<rfloor> else \<lfloor>x\<rfloor> + 1)"

text \<open>
  Rounding. A double of exponent \<open>e\<close> is a multiple of \<open>2 ^ (e - 52)\<close>; below the
  smallest normal exponent \<open>-1022\<close> the doubles are the multiples of \<open>2 ^ (-1074)\<close>. The
  rounded value is an infinity when its magnitude reaches \<open>2 ^ 1024\<close>.
\<close>

definition to_double :: "real \<Rightarrow> real \<Rightarrow> double" where
  "to_double x r =
     (if pow2 1024 \<le> \<bar>r\<bar> then (if 0 < x then PosInf else NegInf) else Finite r)"

definition round_at :: "real \<Rightarrow> int \<Rightarrow> double" where
  "round_at x e = to_double x (of_int (round_even (x / pow2 (e - 52))) * pow2 (e - 52))"

definition rnd :: "real \<Rightarrow> double" where
  "rnd x = (if x = 0 then Finite 0 else round_at x (max (ilog2 \<bar>x\<bar>) (- 1022)))"

text \<open>
  The operations, with the special cases of IEEE 754 for the infinities and NaN.
  \<open>dlt\<close> and \<open>dle\<close> are \<^verbatim>\<open><\<close> and \<^verbatim>\<open><=\<close> (false when an operand is NaN), \<open>dabs\<close> is
  \<^verbatim>\<open>fabs\<close>, \<open>dmin\<close> and \<open>dmax\<close> are \<^verbatim>\<open>fmin\<close> and \<^verbatim>\<open>fmax\<close> (which return the other
  operand when one is NaN).
\<close>

fun dneg :: "double \<Rightarrow> double" where
  "dneg (Finite x) = Finite (- x)"
| "dneg PosInf = NegInf"
| "dneg NegInf = PosInf"
| "dneg NaN = NaN"

fun dadd :: "double \<Rightarrow> double \<Rightarrow> double" where
  "dadd NaN v = NaN"
| "dadd u NaN = NaN"
| "dadd PosInf NegInf = NaN"
| "dadd NegInf PosInf = NaN"
| "dadd PosInf v = PosInf"
| "dadd u PosInf = PosInf"
| "dadd NegInf v = NegInf"
| "dadd u NegInf = NegInf"
| "dadd (Finite x) (Finite y) = rnd (x + y)"

definition dsub :: "double \<Rightarrow> double \<Rightarrow> double" where
  "dsub u v = dadd u (dneg v)"

fun dsign_mul :: "double \<Rightarrow> real \<Rightarrow> double" where
  "dsign_mul PosInf s = (if s = 0 then NaN else if 0 < s then PosInf else NegInf)"
| "dsign_mul NegInf s = (if s = 0 then NaN else if 0 < s then NegInf else PosInf)"
| "dsign_mul u s = u"

fun dmul :: "double \<Rightarrow> double \<Rightarrow> double" where
  "dmul NaN v = NaN"
| "dmul u NaN = NaN"
| "dmul (Finite x) (Finite y) = rnd (x * y)"
| "dmul (Finite x) v = dsign_mul v x"
| "dmul u (Finite y) = dsign_mul u y"
| "dmul PosInf v = v"
| "dmul NegInf v = dneg v"

fun ddiv :: "double \<Rightarrow> double \<Rightarrow> double" where
  "ddiv NaN v = NaN"
| "ddiv u NaN = NaN"
| "ddiv (Finite x) (Finite y) =
     (if y = 0 then (if x = 0 then NaN else if 0 < x then PosInf else NegInf)
      else rnd (x / y))"
| "ddiv (Finite x) v = Finite 0"
| "ddiv PosInf (Finite y) = (if 0 \<le> y then PosInf else NegInf)"
| "ddiv NegInf (Finite y) = (if 0 \<le> y then NegInf else PosInf)"
| "ddiv u v = NaN"

fun dabs :: "double \<Rightarrow> double" where
  "dabs (Finite x) = Finite \<bar>x\<bar>"
| "dabs PosInf = PosInf"
| "dabs NegInf = PosInf"
| "dabs NaN = NaN"

fun dlt :: "double \<Rightarrow> double \<Rightarrow> bool" where
  "dlt NaN v = False"
| "dlt u NaN = False"
| "dlt (Finite x) (Finite y) = (x < y)"
| "dlt u PosInf = (u \<noteq> PosInf)"
| "dlt NegInf v = (v \<noteq> NegInf)"
| "dlt u v = False"

fun dle :: "double \<Rightarrow> double \<Rightarrow> bool" where
  "dle NaN v = False"
| "dle u NaN = False"
| "dle (Finite x) (Finite y) = (x \<le> y)"
| "dle u PosInf = True"
| "dle NegInf v = True"
| "dle u v = False"


fun dmin :: "double \<Rightarrow> double \<Rightarrow> double" where
  "dmin NaN v = v"
| "dmin u NaN = u"
| "dmin u v = (if dlt v u then v else u)"

fun dmax :: "double \<Rightarrow> double \<Rightarrow> double" where
  "dmax NaN v = v"
| "dmax u NaN = u"
| "dmax u v = (if dlt u v then v else u)"

section \<open>polygon.c over binary64\<close>

text \<open>
  The functions of \<^verbatim>\<open>polygon.c\<close> again, each with the suffix \<open>64\<close>: the same statements
  in the same order, with the operations of the last section where the source has
  \<^verbatim>\<open>+\<close>, \<^verbatim>\<open>-\<close>, \<^verbatim>\<open>*\<close>, \<^verbatim>\<open>/\<close>, a comparison, \<^verbatim>\<open>fabs\<close>, \<^verbatim>\<open>fmin\<close> or \<^verbatim>\<open>fmax\<close>. The
  literal \<^verbatim>\<open>1e-6\<close> is the double nearest to \<open>1 / 1000000\<close>. The member functions of
  \<^verbatim>\<open>polygon.cpp\<close> perform the same operations in the same order.
\<close>

record Point64 =
  qx :: double
  qy :: double

record Line64 =
  ka :: double
  kb :: double
  kc :: double

record LineSegment64 =
  ep1 :: Point64
  ep2 :: Point64

type_synonym Polygon64 = "Point64 list"

definition EPSILON64 :: double where
  "EPSILON64 = rnd (1 / 1000000)"

definition areEqual64 :: "double \<Rightarrow> double \<Rightarrow> bool" where
  "areEqual64 u v = dlt (dabs (dsub u v)) EPSILON64"

definition pointsEqual64 :: "Point64 \<Rightarrow> Point64 \<Rightarrow> bool" where
  "pointsEqual64 q1 q2 = (areEqual64 (qx q1) (qx q2) \<and> areEqual64 (qy q1) (qy q2))"

definition createLine64 :: "Point64 \<Rightarrow> Point64 \<Rightarrow> Line64" where
  "createLine64 q1 q2 =
     \<lparr>ka = dsub (qy q2) (qy q1),
      kb = dsub (qx q1) (qx q2),
      kc = dsub (dmul (qx q2) (qy q1)) (dmul (qx q1) (qy q2))\<rparr>"

definition lineContains64 :: "Line64 \<Rightarrow> Point64 \<Rightarrow> bool" where
  "lineContains64 line p =
     areEqual64 (dadd (dadd (dmul (ka line) (qx p)) (dmul (kb line) (qy p))) (kc line)) (Finite 0)"

definition lineIntersection64 :: "Line64 \<Rightarrow> Line64 \<Rightarrow> Point64 option" where
  "lineIntersection64 line1 line2 =
     (let determinant = dsub (dmul (ka line1) (kb line2)) (dmul (ka line2) (kb line1)) in
      if areEqual64 determinant (Finite 0) then None
      else Some \<lparr>qx = ddiv (dsub (dmul (kb line1) (kc line2)) (dmul (kb line2) (kc line1))) determinant,
                 qy = ddiv (dsub (dmul (ka line2) (kc line1)) (dmul (ka line1) (kc line2))) determinant\<rparr>)"

definition segmentContains64 :: "LineSegment64 \<Rightarrow> Point64 \<Rightarrow> bool" where
  "segmentContains64 seg p =
     (let line = createLine64 (ep1 seg) (ep2 seg) in
      if \<not> lineContains64 line p then False
      else (dle (dmin (qx (ep1 seg)) (qx (ep2 seg))) (qx p) \<and>
            dle (qx p) (dmax (qx (ep1 seg)) (qx (ep2 seg)))) \<and>
           (dle (dmin (qy (ep1 seg)) (qy (ep2 seg))) (qy p) \<and>
            dle (qy p) (dmax (qy (ep1 seg)) (qy (ep2 seg)))))"

definition segmentIntersection64 :: "LineSegment64 \<Rightarrow> LineSegment64 \<Rightarrow> Point64 option" where
  "segmentIntersection64 seg1 seg2 =
     (let line1 = createLine64 (ep1 seg1) (ep2 seg1);
          line2 = createLine64 (ep1 seg2) (ep2 seg2) in
      case lineIntersection64 line1 line2 of
        None \<Rightarrow> None
      | Some result \<Rightarrow>
          if segmentContains64 seg1 result \<and> segmentContains64 seg2 result
          then Some result else None)"

definition getEdges64 :: "Polygon64 \<Rightarrow> LineSegment64 list" where
  "getEdges64 poly =
     map (\<lambda>i. \<lparr>ep1 = poly ! i, ep2 = poly ! ((i + 1) mod length poly)\<rparr>) [0..<length poly]"

definition areCollinear64 :: "LineSegment64 \<Rightarrow> LineSegment64 \<Rightarrow> bool" where
  "areCollinear64 seg1 seg2 =
     (let line = createLine64 (ep1 seg1) (ep2 seg1) in
      lineContains64 line (ep1 seg2) \<and> lineContains64 line (ep2 seg2))"

definition isBetween64 :: "double \<Rightarrow> double \<Rightarrow> double \<Rightarrow> bool" where
  "isBetween64 u v w = (dle (dmin u v) w \<and> dle w (dmax u v))"

definition edgesOverlap64 :: "LineSegment64 \<Rightarrow> LineSegment64 \<Rightarrow> bool" where
  "edgesOverlap64 seg1 seg2 =
     ((isBetween64 (qx (ep1 seg1)) (qx (ep2 seg1)) (qx (ep1 seg2)) \<or>
       isBetween64 (qx (ep1 seg1)) (qx (ep2 seg1)) (qx (ep2 seg2)) \<or>
       isBetween64 (qx (ep1 seg2)) (qx (ep2 seg2)) (qx (ep1 seg1)) \<or>
       isBetween64 (qx (ep1 seg2)) (qx (ep2 seg2)) (qx (ep2 seg1))) \<and>
      (isBetween64 (qy (ep1 seg1)) (qy (ep2 seg1)) (qy (ep1 seg2)) \<or>
       isBetween64 (qy (ep1 seg1)) (qy (ep2 seg1)) (qy (ep2 seg2)) \<or>
       isBetween64 (qy (ep1 seg2)) (qy (ep2 seg2)) (qy (ep1 seg1)) \<or>
       isBetween64 (qy (ep1 seg2)) (qy (ep2 seg2)) (qy (ep2 seg1))))"

fun polygonContains64_loop :: "Polygon64 \<Rightarrow> Point64 \<Rightarrow> nat list \<Rightarrow> nat \<Rightarrow> bool" where
  "polygonContains64_loop poly p [] count = (count mod 2 = 1)"
| "polygonContains64_loop poly p (i # rest) count =
     (let v1 = poly ! i;
          v2 = poly ! ((i + 1) mod length poly);
          edge = \<lparr>ep1 = v1, ep2 = v2\<rparr> in
      if segmentContains64 edge p then True
      else if areEqual64 (qy v1) (qy v2) then polygonContains64_loop poly p rest count
      else if dlt (qy p) (dmin (qy v1) (qy v2)) \<or> dlt (dmax (qy v1) (qy v2)) (qy p)
        then polygonContains64_loop poly p rest count
      else
        (let xIntersect =
               dadd (ddiv (dmul (dsub (qy p) (qy v1)) (dsub (qx v2) (qx v1)))
                          (dsub (qy v2) (qy v1)))
                    (qx v1) in
         if areEqual64 xIntersect (qx p) then True
         else if dlt (qx p) xIntersect then polygonContains64_loop poly p rest (count + 1)
         else polygonContains64_loop poly p rest count))"

definition polygonContains64 :: "Polygon64 \<Rightarrow> Point64 \<Rightarrow> bool" where
  "polygonContains64 poly p = polygonContains64_loop poly p [0..<length poly] 0"

definition classify64_body1 ::
  "LineSegment64 list \<Rightarrow> LineSegment64 list \<Rightarrow> Polygon64 \<Rightarrow> nat \<Rightarrow> nat \<Rightarrow> flags \<Rightarrow> flags" where
  "classify64_body1 edges1 edges2 poly2 i j fl =
     (let fl1 = (if segmentContains64 (edges1 ! i) (poly2 ! j)
                 then fl\<lparr>isTouching := True\<rparr> else fl);
          fl2 = (if areCollinear64 (edges1 ! i) (edges2 ! j) \<and>
                    edgesOverlap64 (edges1 ! i) (edges2 ! j)
                 then fl1\<lparr>isTouching := True\<rparr> else fl1) in
      case segmentIntersection64 (edges1 ! i) (edges2 ! j) of
        None \<Rightarrow> fl2
      | Some intersectionPoint \<Rightarrow>
          if \<not> pointsEqual64 intersectionPoint (ep1 (edges1 ! i)) \<and>
             \<not> pointsEqual64 intersectionPoint (ep2 (edges1 ! i)) \<and>
             \<not> pointsEqual64 intersectionPoint (ep1 (edges2 ! j)) \<and>
             \<not> pointsEqual64 intersectionPoint (ep2 (edges2 ! j))
          then fl2\<lparr>isIntersecting := True\<rparr> else fl2)"

definition classify64_body2 ::
  "LineSegment64 list \<Rightarrow> Polygon64 \<Rightarrow> nat \<Rightarrow> nat \<Rightarrow> flags \<Rightarrow> flags" where
  "classify64_body2 edges2 poly1 i j fl =
     (if segmentContains64 (edges2 ! i) (poly1 ! j) then fl\<lparr>isTouching := True\<rparr> else fl)"

definition classify64_flags :: "Polygon64 \<Rightarrow> Polygon64 \<Rightarrow> flags" where
  "classify64_flags poly1 poly2 =
     (let edges1 = getEdges64 poly1;
          edges2 = getEdges64 poly2;
          fl0 = \<lparr>isTouching = False, isIntersecting = False\<rparr>;
          fl1 = fold (\<lambda>i. fold (classify64_body1 edges1 edges2 poly2 i) [0..<length poly2])
                  [0..<length poly1] fl0 in
      fold (\<lambda>i. fold (classify64_body2 edges2 poly1 i) [0..<length poly1])
        [0..<length poly2] fl1)"

fun allInside64_loop :: "Polygon64 \<Rightarrow> Polygon64 \<Rightarrow> nat list \<Rightarrow> bool" where
  "allInside64_loop outer inner [] = True"
| "allInside64_loop outer inner (i # rest) =
     (if \<not> polygonContains64 outer (inner ! i) then False
      else allInside64_loop outer inner rest)"

definition classifyPolygons64 :: "Polygon64 \<Rightarrow> Polygon64 \<Rightarrow> string" where
  "classifyPolygons64 poly1 poly2 =
     (let fl = classify64_flags poly1 poly2 in
      if isIntersecting fl then ''Intersecting''
      else if isTouching fl then ''Touching''
      else
        (let thisInsideOther = allInside64_loop poly2 poly1 [0..<length poly1];
             otherInsideThis = allInside64_loop poly1 poly2 [0..<length poly2] in
         if thisInsideOther \<or> otherInsideThis then ''Disjoint (Enclosed)''
         else ''Disjoint (Outside)''))"

text \<open>A point read as doubles: each coordinate rounded to the nearest double.\<close>

definition to64 :: "Point \<Rightarrow> Point64" where
  "to64 p = \<lparr>qx = rnd (px p), qy = rnd (py p)\<rparr>"

subsection \<open>Division sites\<close>






subsection \<open>Notions of the specification, over binary64\<close>

definition interiorCrossing64 :: "LineSegment64 \<Rightarrow> LineSegment64 \<Rightarrow> bool" where
  "interiorCrossing64 e1 e2 =
     (case segmentIntersection64 e1 e2 of
        None \<Rightarrow> False
      | Some p \<Rightarrow> \<not> pointsEqual64 p (ep1 e1) \<and> \<not> pointsEqual64 p (ep2 e1) \<and>
                  \<not> pointsEqual64 p (ep1 e2) \<and> \<not> pointsEqual64 p (ep2 e2))"

definition crossing64 :: "Polygon64 \<Rightarrow> Polygon64 \<Rightarrow> bool" where
  "crossing64 A B =
     (\<exists>e1\<in>set (getEdges64 A). \<exists>e2\<in>set (getEdges64 B). interiorCrossing64 e1 e2)"

definition vertexOnEdge64 :: "Polygon64 \<Rightarrow> Polygon64 \<Rightarrow> bool" where
  "vertexOnEdge64 A B = (\<exists>e\<in>set (getEdges64 A). \<exists>v\<in>set B. segmentContains64 e v)"

definition collinearContact64 :: "Polygon64 \<Rightarrow> Polygon64 \<Rightarrow> bool" where
  "collinearContact64 A B =
     (\<exists>e1\<in>set (getEdges64 A). \<exists>e2\<in>set (getEdges64 B).
        areCollinear64 e1 e2 \<and> edgesOverlap64 e1 e2)"

definition verticesInside64 :: "Polygon64 \<Rightarrow> Polygon64 \<Rightarrow> bool" where
  "verticesInside64 A B = (\<forall>v\<in>set A. polygonContains64 B v)"

section \<open>The two files compute the same primitives\<close>

lemma areEqual_cpp_eq: "areEqual_cpp u v = areEqual u v"
  by (simp add: areEqual_cpp_def areEqual_def)

lemma areEqual_commute: "areEqual u v = areEqual v u"
  by (simp add: areEqual_def abs_minus_commute)


lemma areEqual_zero: "areEqual u 0 = (\<bar>u\<bar> < EPSILON)"
  by (simp add: areEqual_def)

lemma pointsEqual_commute: "pointsEqual q1 q2 = pointsEqual q2 q1"
  by (simp add: pointsEqual_def areEqual_commute [of "px q1"] areEqual_commute [of "py q1"])


lemma Point_eq_pointsEqual: "Point_eq q1 q2 = pointsEqual q1 q2"
  by (simp add: Point_eq_def pointsEqual_def areEqual_cpp_eq)

lemma Line_ctor_eq: "Line_ctor q1 q2 = createLine q1 q2"
  by (simp add: Line_ctor_def createLine_def)

lemma Line_contains_eq: "Line_contains line p = lineContains line p"
  by (simp add: Line_contains_def lineContains_def areEqual_cpp_eq)

lemma Line_intersection_eq: "Line_intersection line1 line2 = lineIntersection line1 line2"
  by (simp add: Line_intersection_def lineIntersection_def areEqual_cpp_eq)

lemma LineSegment_contains_eq: "LineSegment_contains seg p = segmentContains seg p"
  by (simp add: LineSegment_contains_def segmentContains_def Line_ctor_eq Line_contains_eq)

lemma LineSegment_intersection_eq:
  "LineSegment_intersection seg1 seg2 = segmentIntersection seg1 seg2"
  by (simp add: LineSegment_intersection_def segmentIntersection_def Line_ctor_eq
      Line_intersection_eq LineSegment_contains_eq cong: option.case_cong)

lemma Polygon_getEdges_eq: "Polygon_getEdges poly = getEdges poly"
  by (simp add: Polygon_getEdges_def getEdges_def Let_def)

lemma Polygon_contains_loop_eq:
  "Polygon_contains_loop poly p idxs count = polygonContains_loop poly p idxs count"
  by (induction idxs arbitrary: count)
    (simp_all add: LineSegment_contains_eq areEqual_cpp_eq Let_def)

lemma Polygon_contains_eq: "Polygon_contains poly p = polygonContains poly p"
  by (simp add: Polygon_contains_def polygonContains_def Polygon_contains_loop_eq)

lemma Polygon_areCollinear_eq: "Polygon_areCollinear seg1 seg2 = areCollinear seg1 seg2"
  by (simp add: Polygon_areCollinear_def areCollinear_def Line_ctor_eq Line_contains_eq)

lemma Polygon_edgesOverlap_eq: "Polygon_edgesOverlap seg1 seg2 = edgesOverlap seg1 seg2"
  by (simp add: Polygon_edgesOverlap_def edgesOverlap_def isBetween_def)

section \<open>Bounding boxes\<close>

lemma isBetween_intervals:
  "(isBetween u1 u2 w1 \<or> isBetween u1 u2 w2 \<or> isBetween w1 w2 u1 \<or> isBetween w1 w2 u2) =
     intervalsOverlap u1 u2 w1 w2"
  unfolding isBetween_def intervalsOverlap_def min_def max_def
  by (auto split: if_splits)

lemma edgesOverlap_boxes: "edgesOverlap e1 e2 = boxesOverlap e1 e2"
  by (simp add: edgesOverlap_def boxesOverlap_def isBetween_intervals)

section \<open>What the loops of the classifiers compute\<close>

lemma classify_body1_eq:
  "classify_body1 edges1 edges2 poly2 i j fl =
     \<lparr>isTouching = isTouching fl \<or> (segmentContains (edges1 ! i) (poly2 ! j) \<or>
                    (areCollinear (edges1 ! i) (edges2 ! j) \<and> boxesOverlap (edges1 ! i) (edges2 ! j))),
      isIntersecting = isIntersecting fl \<or> interiorCrossing (edges1 ! i) (edges2 ! j)\<rparr>"
  by (cases "segmentIntersection (edges1 ! i) (edges2 ! j)")
    (auto simp: classify_body1_def interiorCrossing_def edgesOverlap_boxes Let_def)

lemma classify_body2_eq:
  "classify_body2 edges2 poly1 i j fl =
     \<lparr>isTouching = isTouching fl \<or> segmentContains (edges2 ! i) (poly1 ! j),
      isIntersecting = isIntersecting fl \<or> False\<rparr>"
  by (auto simp: classify_body2_def)

lemma fold_flags:
  "fold (\<lambda>k fl. \<lparr>isTouching = isTouching fl \<or> T k, isIntersecting = isIntersecting fl \<or> X k\<rparr>) ks fl0 =
     \<lparr>isTouching = isTouching fl0 \<or> (\<exists>k\<in>set ks. T k),
      isIntersecting = isIntersecting fl0 \<or> (\<exists>k\<in>set ks. X k)\<rparr>"
  by (induction ks arbitrary: fl0) auto

lemma length_getEdges: "length (getEdges poly) = length poly"
  by (simp add: getEdges_def)

lemma bex_upt_nth: "(\<exists>i\<in>{0..<length xs}. Q (xs ! i)) = (\<exists>x\<in>set xs. Q x)"
proof
  assume "\<exists>i\<in>{0..<length xs}. Q (xs ! i)"
  then obtain i where "i < length xs" and "Q (xs ! i)" by auto
  then show "\<exists>x\<in>set xs. Q x" using nth_mem by blast
next
  assume "\<exists>x\<in>set xs. Q x"
  then obtain i where "i < length xs" and "Q (xs ! i)" by (auto simp: in_set_conv_nth)
  then show "\<exists>i\<in>{0..<length xs}. Q (xs ! i)" by auto
qed

lemma bex_upt_edges:
  "(\<exists>i\<in>{0..<length poly}. Q (getEdges poly ! i)) = (\<exists>e\<in>set (getEdges poly). Q e)"
  using bex_upt_nth [of "getEdges poly" Q] by (simp add: length_getEdges)

lemma classify_flags_eq:
  "classify_flags poly1 poly2 =
     \<lparr>isTouching =
        (\<exists>e1\<in>set (getEdges poly1). (\<exists>v\<in>set poly2. segmentContains e1 v) \<or>
           (\<exists>e2\<in>set (getEdges poly2). areCollinear e1 e2 \<and> boxesOverlap e1 e2)) \<or>
        (\<exists>e2\<in>set (getEdges poly2). \<exists>v\<in>set poly1. segmentContains e2 v),
      isIntersecting =
        (\<exists>e1\<in>set (getEdges poly1). \<exists>e2\<in>set (getEdges poly2). interiorCrossing e1 e2)\<rparr>"
proof -
  let ?E1 = "getEdges poly1" and ?E2 = "getEdges poly2"
  let ?ct = "\<lambda>e1 e2. areCollinear e1 e2 \<and> boxesOverlap e1 e2"
  have inner1: "fold (classify_body1 ?E1 ?E2 poly2 i) [0..<length poly2] fl =
      \<lparr>isTouching = isTouching fl \<or>
         ((\<exists>v\<in>set poly2. segmentContains (?E1 ! i) v) \<or> (\<exists>e2\<in>set ?E2. ?ct (?E1 ! i) e2)),
       isIntersecting = isIntersecting fl \<or> (\<exists>e2\<in>set ?E2. interiorCrossing (?E1 ! i) e2)\<rparr>"
    for i fl
  proof -
    have "classify_body1 ?E1 ?E2 poly2 i =
        (\<lambda>j fl. \<lparr>isTouching = isTouching fl \<or>
                    (segmentContains (?E1 ! i) (poly2 ! j) \<or> ?ct (?E1 ! i) (?E2 ! j)),
                  isIntersecting = isIntersecting fl \<or> interiorCrossing (?E1 ! i) (?E2 ! j)\<rparr>)"
      by (intro ext) (simp add: classify_body1_eq)
    then show ?thesis
      by (simp add: fold_flags bex_disj_distrib
          bex_upt_nth [of poly2 "\<lambda>v. segmentContains (?E1 ! i) v"]
          bex_upt_edges [of poly2 "\<lambda>e. ?ct (?E1 ! i) e"]
          bex_upt_edges [of poly2 "\<lambda>e. interiorCrossing (?E1 ! i) e"])
  qed
  have inner2: "fold (classify_body2 ?E2 poly1 i) [0..<length poly1] fl =
      \<lparr>isTouching = isTouching fl \<or> (\<exists>v\<in>set poly1. segmentContains (?E2 ! i) v),
       isIntersecting = isIntersecting fl \<or> False\<rparr>"
    for i fl
  proof -
    have "classify_body2 ?E2 poly1 i =
        (\<lambda>j fl. \<lparr>isTouching = isTouching fl \<or> segmentContains (?E2 ! i) (poly1 ! j),
                  isIntersecting = isIntersecting fl \<or> False\<rparr>)"
      by (intro ext) (simp add: classify_body2_eq)
    then show ?thesis
      using fold_flags [of "\<lambda>j. segmentContains (?E2 ! i) (poly1 ! j)" "\<lambda>j. False" "[0..<length poly1]" fl]
      by (simp add: bex_upt_nth [of poly1 "\<lambda>v. segmentContains (?E2 ! i) v"])
  qed
  have inner1': "(\<lambda>i. fold (classify_body1 ?E1 ?E2 poly2 i) [0..<length poly2]) =
      (\<lambda>i fl. \<lparr>isTouching = isTouching fl \<or>
         ((\<exists>v\<in>set poly2. segmentContains (?E1 ! i) v) \<or> (\<exists>e2\<in>set ?E2. ?ct (?E1 ! i) e2)),
       isIntersecting = isIntersecting fl \<or> (\<exists>e2\<in>set ?E2. interiorCrossing (?E1 ! i) e2)\<rparr>)"
    by (intro ext) (rule inner1)
  have inner2': "(\<lambda>i. fold (classify_body2 ?E2 poly1 i) [0..<length poly1]) =
      (\<lambda>i fl. \<lparr>isTouching = isTouching fl \<or> (\<exists>v\<in>set poly1. segmentContains (?E2 ! i) v),
       isIntersecting = isIntersecting fl \<or> False\<rparr>)"
    by (intro ext) (rule inner2)
  have outer1: "fold (\<lambda>i. fold (classify_body1 ?E1 ?E2 poly2 i) [0..<length poly2]) [0..<length poly1] fl =
      \<lparr>isTouching = isTouching fl \<or>
         (\<exists>e1\<in>set ?E1. (\<exists>v\<in>set poly2. segmentContains e1 v) \<or> (\<exists>e2\<in>set ?E2. ?ct e1 e2)),
       isIntersecting = isIntersecting fl \<or>
         (\<exists>e1\<in>set ?E1. \<exists>e2\<in>set ?E2. interiorCrossing e1 e2)\<rparr>"
    for fl
    using fold_flags [of "\<lambda>i. (\<exists>v\<in>set poly2. segmentContains (?E1 ! i) v) \<or> (\<exists>e2\<in>set ?E2. ?ct (?E1 ! i) e2)"
        "\<lambda>i. \<exists>e2\<in>set ?E2. interiorCrossing (?E1 ! i) e2" "[0..<length poly1]" fl]
    by (simp add: inner1'
        bex_upt_edges [of poly1 "\<lambda>e. (\<exists>v\<in>set poly2. segmentContains e v) \<or> (\<exists>e2\<in>set ?E2. ?ct e e2)"]
        bex_upt_edges [of poly1 "\<lambda>e. \<exists>e2\<in>set ?E2. interiorCrossing e e2"])
  have outer2: "fold (\<lambda>i. fold (classify_body2 ?E2 poly1 i) [0..<length poly1]) [0..<length poly2] fl =
      \<lparr>isTouching = isTouching fl \<or> (\<exists>e2\<in>set ?E2. \<exists>v\<in>set poly1. segmentContains e2 v),
       isIntersecting = isIntersecting fl \<or> False\<rparr>"
    for fl
    using fold_flags [of "\<lambda>i. \<exists>v\<in>set poly1. segmentContains (?E2 ! i) v" "\<lambda>i. False" "[0..<length poly2]" fl]
    by (simp add: inner2'
        bex_upt_edges [of poly2 "\<lambda>e. \<exists>v\<in>set poly1. segmentContains e v"])
  show ?thesis
    by (simp add: classify_flags_def Let_def outer1 outer2)
qed

lemma allInside_loop_eq:
  "allInside_loop outer inner idxs = (\<forall>i\<in>set idxs. polygonContains outer (inner ! i))"
  by (induction idxs) auto

lemma allInside_all: "allInside_loop outer inner [0..<length inner] = verticesInside inner outer"
  unfolding allInside_loop_eq verticesInside_def
  by (auto simp: all_set_conv_all_nth)

text \<open>The decision procedure of \<^verbatim>\<open>classifyPolygons\<close>, in the notions of the specification.\<close>

lemma classifyPolygons_eq:
  "classifyPolygons A B =
     (if crossing A B then ''Intersecting''
      else if vertexOnEdge A B \<or> vertexOnEdge B A \<or> collinearContact A B then ''Touching''
      else if verticesInside A B \<or> verticesInside B A then ''Disjoint (Enclosed)''
      else ''Disjoint (Outside)'')"
proof -
  have x: "isIntersecting (classify_flags A B) = crossing A B"
    by (simp add: classify_flags_eq crossing_def)
  have t: "isTouching (classify_flags A B) =
      (vertexOnEdge A B \<or> vertexOnEdge B A \<or> collinearContact A B)"
    unfolding classify_flags_eq vertexOnEdge_def collinearContact_def by auto
  show ?thesis
    by (simp add: classifyPolygons_def Let_def x t allInside_all)
qed

lemma touch_vertices_eq:
  "touch_vertices edge vs touching = (touching \<or> (\<exists>v\<in>set vs. segmentContains edge v))"
  by (induction vs) (auto simp: LineSegment_contains_eq)

lemma touch_edges_eq:
  "touch_edges edge1 es touching =
     (touching \<or> (\<exists>e2\<in>set es. areCollinear edge1 e2 \<and> boxesOverlap edge1 e2))"
  by (induction es) (auto simp: Polygon_areCollinear_eq Polygon_edgesOverlap_eq edgesOverlap_boxes)

lemma cross_edges_step:
  "(case LineSegment_intersection edge1 edge2 of
      None \<Rightarrow> r
    | Some ip \<Rightarrow>
        if \<not> Point_eq (sp1 edge1) ip \<and> \<not> Point_eq (sp2 edge1) ip \<and>
           \<not> Point_eq (sp1 edge2) ip \<and> \<not> Point_eq (sp2 edge2) ip
        then True else r) = (interiorCrossing edge1 edge2 \<or> r)"
  by (cases "segmentIntersection edge1 edge2")
    (auto simp: LineSegment_intersection_eq interiorCrossing_def Point_eq_pointsEqual
      pointsEqual_commute)

lemma cross_edges_eq:
  "cross_edges edge1 es intersecting =
     (intersecting \<or> (\<exists>e2\<in>set es. interiorCrossing edge1 e2))"
proof (induction es)
  case Nil
  show ?case by simp
next
  case (Cons e2 es)
  have "cross_edges edge1 (e2 # es) intersecting =
      (interiorCrossing edge1 e2 \<or> cross_edges edge1 es intersecting)"
    unfolding cross_edges.simps by (rule cross_edges_step)
  with Cons show ?case by auto
qed

lemma fold_or: "fold (\<lambda>e t. t \<or> Q e) es t0 = (t0 \<or> (\<exists>e\<in>set es. Q e))"
  by (induction es arbitrary: t0) auto

lemma all_contained_eq: "all_contained poly vs = verticesInside vs poly"
  by (induction vs) (auto simp: verticesInside_def Polygon_contains_eq)

text \<open>The decision procedure of \<^verbatim>\<open>Polygon::classify\<close>, in the same notions.\<close>

lemma Polygon_classify_eq:
  "Polygon_classify A B =
     (if crossing A B then ''Intersecting''
      else if vertexOnEdge A B \<or> vertexOnEdge B A \<or> collinearContact A B then ''Touching''
      else if verticesInside A B \<or> verticesInside B A then ''Disjoint (Enclosed)''
      else ''Disjoint (Outside)'')"
proof -
  have f1: "(\<lambda>edge1. touch_vertices edge1 B) = (\<lambda>e t. t \<or> (\<exists>v\<in>set B. segmentContains e v))"
    by (intro ext) (rule touch_vertices_eq)
  have f2: "(\<lambda>edge2. touch_vertices edge2 A) = (\<lambda>e t. t \<or> (\<exists>v\<in>set A. segmentContains e v))"
    by (intro ext) (rule touch_vertices_eq)
  have f3: "(\<lambda>edge1. touch_edges edge1 (getEdges B)) =
      (\<lambda>e t. t \<or> (\<exists>e2\<in>set (getEdges B). areCollinear e e2 \<and> boxesOverlap e e2))"
    by (intro ext) (rule touch_edges_eq)
  have f4: "(\<lambda>edge1. cross_edges edge1 (getEdges B)) =
      (\<lambda>e t. t \<or> (\<exists>e2\<in>set (getEdges B). interiorCrossing e e2))"
    by (intro ext) (rule cross_edges_eq)
  show ?thesis
    unfolding Polygon_classify_def Let_def Polygon_getEdges_eq f1 f2 f3 f4 fold_or
      all_contained_eq
    by (simp add: crossing_def vertexOnEdge_def collinearContact_def)
qed

section \<open>Exact geometry of the primitives\<close>




lemma cramer_negated:
  "(if areEqual (- d) 0 then None else Some \<lparr>px = (- nx) / (- d), py = (- ny) / (- d)\<rparr>) =
   (if areEqual d 0 then None else Some \<lparr>px = nx / d, py = ny / d\<rparr>)"
  by (simp add: areEqual_zero)

lemma lineIntersection_commute: "lineIntersection l1 l2 = lineIntersection l2 l1"
proof -
  have d: "la l2 * lb l1 - la l1 * lb l2 = - (la l1 * lb l2 - la l2 * lb l1)"
    and nx: "lb l2 * lc l1 - lb l1 * lc l2 = - (lb l1 * lc l2 - lb l2 * lc l1)"
    and ny: "la l1 * lc l2 - la l2 * lc l1 = - (la l2 * lc l1 - la l1 * lc l2)"
    by simp_all
  show ?thesis
    unfolding lineIntersection_def Let_def d nx ny by (rule cramer_negated [symmetric])
qed

lemma segmentIntersection_commute: "segmentIntersection e1 e2 = segmentIntersection e2 e1"
  unfolding segmentIntersection_def Let_def
    lineIntersection_commute [of "createLine (sp1 e1) (sp2 e1)"]
  by (auto split: option.splits)

lemma interiorCrossing_commute: "interiorCrossing e1 e2 = interiorCrossing e2 e1"
  unfolding interiorCrossing_def segmentIntersection_commute [of e1 e2]
  by (auto split: option.splits)

lemma crossing_commute: "crossing A B = crossing B A"
  unfolding crossing_def using interiorCrossing_commute by blast







section \<open>Point in polygon\<close>





section \<open>The example polygons, evaluated\<close>

lemmas geometry_defs =
  getEdges_def interiorCrossing_def segmentIntersection_def lineIntersection_def createLine_def
  segmentContains_def lineContains_def areEqual_def EPSILON_def pointsEqual_def areCollinear_def
  boxesOverlap_def intervalsOverlap_def Let_def

lemma crossing_outer_cut: "crossing tri_outer tri_cut"
  by (simp add: crossing_def tri_outer_def tri_cut_def geometry_defs)

lemma no_crossing_large_tiny: "\<not> crossing tri_large tri_tiny"
  by (simp add: crossing_def tri_large_def tri_tiny_def geometry_defs)

lemma no_crossing_tiny_large: "\<not> crossing tri_tiny tri_large"
  by (simp add: crossing_def tri_large_def tri_tiny_def geometry_defs)

lemma no_vertexOnEdge_large_tiny: "\<not> vertexOnEdge tri_large tri_tiny"
  by (simp add: vertexOnEdge_def tri_large_def tri_tiny_def geometry_defs)

lemma no_vertexOnEdge_tiny_large: "\<not> vertexOnEdge tri_tiny tri_large"
  by (simp add: vertexOnEdge_def tri_large_def tri_tiny_def geometry_defs)

lemma no_collinearContact_large_tiny: "\<not> collinearContact tri_large tri_tiny"
  by (simp add: collinearContact_def tri_large_def tri_tiny_def geometry_defs)

lemma collinearContact_tiny_large: "collinearContact tri_tiny tri_large"
  by (simp add: collinearContact_def tri_large_def tri_tiny_def geometry_defs)

lemma not_inside_large_tiny: "\<not> verticesInside tri_large tri_tiny"
  by (simp add: verticesInside_def polygonContains_def tri_large_def tri_tiny_def geometry_defs)

lemma not_inside_tiny_large: "\<not> verticesInside tri_tiny tri_large"
  by (simp add: verticesInside_def polygonContains_def tri_large_def tri_tiny_def geometry_defs)

lemma no_crossing_outer_inner: "\<not> crossing tri_outer tri_inner"
  by (simp add: crossing_def tri_outer_def tri_inner_def geometry_defs)

lemma no_contact_outer_inner:
  "\<not> vertexOnEdge tri_outer tri_inner \<and> \<not> vertexOnEdge tri_inner tri_outer \<and>
   \<not> collinearContact tri_outer tri_inner"
  by (simp add: vertexOnEdge_def collinearContact_def tri_outer_def tri_inner_def geometry_defs)

lemma inside_inner_outer: "verticesInside tri_inner tri_outer"
  by (simp add: verticesInside_def polygonContains_def tri_outer_def tri_inner_def geometry_defs)

section \<open>Simple polygons\<close>







section \<open>More evaluations of the example polygons\<close>

lemma no_collinearContact_inner_outer: "\<not> collinearContact tri_inner tri_outer"
  by (simp add: collinearContact_def tri_outer_def tri_inner_def geometry_defs)

lemma first_edges_collinearEither:
  "collinearEither (getEdges tri_large ! 0) (getEdges tri_tiny ! 0)"
  by (simp add: collinearEither_def tri_large_def tri_tiny_def geometry_defs)

lemma first_edges_boxesOverlap:
  "boxesOverlap (getEdges tri_large ! 0) (getEdges tri_tiny ! 0)"
  by (simp add: tri_large_def tri_tiny_def geometry_defs)

lemma classify_large_tiny:
  "classifyPolygons tri_large tri_tiny = ''Disjoint (Outside)''"
  "Polygon_classify tri_large tri_tiny = ''Disjoint (Outside)''"
  using no_crossing_large_tiny no_vertexOnEdge_large_tiny no_vertexOnEdge_tiny_large
    no_collinearContact_large_tiny not_inside_large_tiny not_inside_tiny_large
  by (simp_all add: classifyPolygons_eq Polygon_classify_eq)

lemma classify_tiny_large:
  "classifyPolygons tri_tiny tri_large = ''Touching''"
  "Polygon_classify tri_tiny tri_large = ''Touching''"
  using no_crossing_tiny_large collinearContact_tiny_large
  by (simp_all add: classifyPolygons_eq Polygon_classify_eq)



section \<open>What the loops compute, over binary64\<close>

lemma classify64_body1_eq:
  "classify64_body1 edges1 edges2 poly2 i j fl =
     \<lparr>isTouching = isTouching fl \<or> (segmentContains64 (edges1 ! i) (poly2 ! j) \<or>
                    (areCollinear64 (edges1 ! i) (edges2 ! j) \<and> edgesOverlap64 (edges1 ! i) (edges2 ! j))),
      isIntersecting = isIntersecting fl \<or> interiorCrossing64 (edges1 ! i) (edges2 ! j)\<rparr>"
  by (cases "segmentIntersection64 (edges1 ! i) (edges2 ! j)")
    (auto simp: classify64_body1_def interiorCrossing64_def Let_def)

lemma classify64_body2_eq:
  "classify64_body2 edges2 poly1 i j fl =
     \<lparr>isTouching = isTouching fl \<or> segmentContains64 (edges2 ! i) (poly1 ! j),
      isIntersecting = isIntersecting fl \<or> False\<rparr>"
  by (auto simp: classify64_body2_def)

lemma length_getEdges64: "length (getEdges64 poly) = length poly"
  by (simp add: getEdges64_def)

lemma bex_upt_edges64:
  "(\<exists>i\<in>{0..<length poly}. Q (getEdges64 poly ! i)) = (\<exists>e\<in>set (getEdges64 poly). Q e)"
  using bex_upt_nth [of "getEdges64 poly" Q] by (simp add: length_getEdges64)

lemma classify64_flags_eq:
  "classify64_flags poly1 poly2 =
     \<lparr>isTouching =
        (\<exists>e1\<in>set (getEdges64 poly1). (\<exists>v\<in>set poly2. segmentContains64 e1 v) \<or>
           (\<exists>e2\<in>set (getEdges64 poly2). areCollinear64 e1 e2 \<and> edgesOverlap64 e1 e2)) \<or>
        (\<exists>e2\<in>set (getEdges64 poly2). \<exists>v\<in>set poly1. segmentContains64 e2 v),
      isIntersecting =
        (\<exists>e1\<in>set (getEdges64 poly1). \<exists>e2\<in>set (getEdges64 poly2). interiorCrossing64 e1 e2)\<rparr>"
proof -
  let ?E1 = "getEdges64 poly1" and ?E2 = "getEdges64 poly2"
  let ?ct = "\<lambda>e1 e2. areCollinear64 e1 e2 \<and> edgesOverlap64 e1 e2"
  have inner1: "fold (classify64_body1 ?E1 ?E2 poly2 i) [0..<length poly2] fl =
      \<lparr>isTouching = isTouching fl \<or>
         ((\<exists>v\<in>set poly2. segmentContains64 (?E1 ! i) v) \<or> (\<exists>e2\<in>set ?E2. ?ct (?E1 ! i) e2)),
       isIntersecting = isIntersecting fl \<or> (\<exists>e2\<in>set ?E2. interiorCrossing64 (?E1 ! i) e2)\<rparr>"
    for i fl
  proof -
    have "classify64_body1 ?E1 ?E2 poly2 i =
        (\<lambda>j fl. \<lparr>isTouching = isTouching fl \<or>
                    (segmentContains64 (?E1 ! i) (poly2 ! j) \<or> ?ct (?E1 ! i) (?E2 ! j)),
                  isIntersecting = isIntersecting fl \<or> interiorCrossing64 (?E1 ! i) (?E2 ! j)\<rparr>)"
      by (intro ext) (simp add: classify64_body1_eq)
    then show ?thesis
      by (simp add: fold_flags bex_disj_distrib
          bex_upt_nth [of poly2 "\<lambda>v. segmentContains64 (?E1 ! i) v"]
          bex_upt_edges64 [of poly2 "\<lambda>e. ?ct (?E1 ! i) e"]
          bex_upt_edges64 [of poly2 "\<lambda>e. interiorCrossing64 (?E1 ! i) e"])
  qed
  have inner2: "fold (classify64_body2 ?E2 poly1 i) [0..<length poly1] fl =
      \<lparr>isTouching = isTouching fl \<or> (\<exists>v\<in>set poly1. segmentContains64 (?E2 ! i) v),
       isIntersecting = isIntersecting fl \<or> False\<rparr>"
    for i fl
  proof -
    have "classify64_body2 ?E2 poly1 i =
        (\<lambda>j fl. \<lparr>isTouching = isTouching fl \<or> segmentContains64 (?E2 ! i) (poly1 ! j),
                  isIntersecting = isIntersecting fl \<or> False\<rparr>)"
      by (intro ext) (simp add: classify64_body2_eq)
    then show ?thesis
      using fold_flags [of "\<lambda>j. segmentContains64 (?E2 ! i) (poly1 ! j)" "\<lambda>j. False" "[0..<length poly1]" fl]
      by (simp add: bex_upt_nth [of poly1 "\<lambda>v. segmentContains64 (?E2 ! i) v"])
  qed
  have inner1': "(\<lambda>i. fold (classify64_body1 ?E1 ?E2 poly2 i) [0..<length poly2]) =
      (\<lambda>i fl. \<lparr>isTouching = isTouching fl \<or>
         ((\<exists>v\<in>set poly2. segmentContains64 (?E1 ! i) v) \<or> (\<exists>e2\<in>set ?E2. ?ct (?E1 ! i) e2)),
       isIntersecting = isIntersecting fl \<or> (\<exists>e2\<in>set ?E2. interiorCrossing64 (?E1 ! i) e2)\<rparr>)"
    by (intro ext) (rule inner1)
  have inner2': "(\<lambda>i. fold (classify64_body2 ?E2 poly1 i) [0..<length poly1]) =
      (\<lambda>i fl. \<lparr>isTouching = isTouching fl \<or> (\<exists>v\<in>set poly1. segmentContains64 (?E2 ! i) v),
       isIntersecting = isIntersecting fl \<or> False\<rparr>)"
    by (intro ext) (rule inner2)
  have outer1: "fold (\<lambda>i. fold (classify64_body1 ?E1 ?E2 poly2 i) [0..<length poly2]) [0..<length poly1] fl =
      \<lparr>isTouching = isTouching fl \<or>
         (\<exists>e1\<in>set ?E1. (\<exists>v\<in>set poly2. segmentContains64 e1 v) \<or> (\<exists>e2\<in>set ?E2. ?ct e1 e2)),
       isIntersecting = isIntersecting fl \<or>
         (\<exists>e1\<in>set ?E1. \<exists>e2\<in>set ?E2. interiorCrossing64 e1 e2)\<rparr>"
    for fl
    using fold_flags [of "\<lambda>i. (\<exists>v\<in>set poly2. segmentContains64 (?E1 ! i) v) \<or> (\<exists>e2\<in>set ?E2. ?ct (?E1 ! i) e2)"
        "\<lambda>i. \<exists>e2\<in>set ?E2. interiorCrossing64 (?E1 ! i) e2" "[0..<length poly1]" fl]
    by (simp add: inner1'
        bex_upt_edges64 [of poly1 "\<lambda>e. (\<exists>v\<in>set poly2. segmentContains64 e v) \<or> (\<exists>e2\<in>set ?E2. ?ct e e2)"]
        bex_upt_edges64 [of poly1 "\<lambda>e. \<exists>e2\<in>set ?E2. interiorCrossing64 e e2"])
  have outer2: "fold (\<lambda>i. fold (classify64_body2 ?E2 poly1 i) [0..<length poly1]) [0..<length poly2] fl =
      \<lparr>isTouching = isTouching fl \<or> (\<exists>e2\<in>set ?E2. \<exists>v\<in>set poly1. segmentContains64 e2 v),
       isIntersecting = isIntersecting fl \<or> False\<rparr>"
    for fl
    using fold_flags [of "\<lambda>i. \<exists>v\<in>set poly1. segmentContains64 (?E2 ! i) v" "\<lambda>i. False" "[0..<length poly2]" fl]
    by (simp add: inner2'
        bex_upt_edges64 [of poly2 "\<lambda>e. \<exists>v\<in>set poly1. segmentContains64 e v"])
  show ?thesis
    by (simp add: classify64_flags_def Let_def outer1 outer2)
qed

lemma allInside64_loop_eq:
  "allInside64_loop outer inner idxs = (\<forall>i\<in>set idxs. polygonContains64 outer (inner ! i))"
  by (induction idxs) auto

lemma allInside64_all: "allInside64_loop outer inner [0..<length inner] = verticesInside64 inner outer"
  unfolding allInside64_loop_eq verticesInside64_def
  by (auto simp: all_set_conv_all_nth)

text \<open>The decision procedure of \<^verbatim>\<open>classifyPolygons\<close> over binary64.\<close>

lemma classifyPolygons64_eq:
  "classifyPolygons64 A B =
     (if crossing64 A B then ''Intersecting''
      else if vertexOnEdge64 A B \<or> vertexOnEdge64 B A \<or> collinearContact64 A B then ''Touching''
      else if verticesInside64 A B \<or> verticesInside64 B A then ''Disjoint (Enclosed)''
      else ''Disjoint (Outside)'')"
proof -
  have x: "isIntersecting (classify64_flags A B) = crossing64 A B"
    by (simp add: classify64_flags_eq crossing64_def)
  have t: "isTouching (classify64_flags A B) =
      (vertexOnEdge64 A B \<or> vertexOnEdge64 B A \<or> collinearContact64 A B)"
    unfolding classify64_flags_eq vertexOnEdge64_def collinearContact64_def by auto
  show ?thesis
    by (simp add: classifyPolygons64_def Let_def x t allInside64_all)
qed

section \<open>Rounding to binary64\<close>

lemma pow2_powr: "pow2 k = 2 powr (of_int k)"
proof (cases "0 \<le> k")
  case True
  then have "(2::real) powr (of_int k) = 2 powr (real (nat k))" by simp
  also have "\<dots> = 2 ^ nat k" by (simp add: powr_realpow)
  finally show ?thesis using True by (simp add: pow2_def)
next
  case False
  then have "(2::real) powr (of_int k) = 2 powr (- real (nat (- k)))" by simp
  also have "\<dots> = 1 / 2 powr (real (nat (- k)))" by (simp add: powr_minus_divide)
  also have "\<dots> = 1 / 2 ^ nat (- k)" by (simp add: powr_realpow)
  finally show ?thesis using False by (simp add: pow2_def)
qed

lemma pow2_pos: "0 < pow2 k"
  by (simp add: pow2_powr)

lemma pow2_add: "pow2 (j + k) = pow2 j * pow2 k"
  by (simp add: pow2_powr powr_add)

lemma pow2_less_iff: "pow2 j < pow2 k \<longleftrightarrow> j < k"
  by (simp add: pow2_powr)

lemma pow2_le_iff: "pow2 j \<le> pow2 k \<longleftrightarrow> j \<le> k"
  by (simp add: pow2_powr)

lemma pow2_nat: "pow2 (int n) = 2 ^ n"
  by (simp add: pow2_def)

lemma pow2_neg_nat: "pow2 (- int n) = 1 / 2 ^ n"
  by (simp add: pow2_powr powr_minus_divide powr_realpow)

lemma bitlen_pos: "0 < n \<Longrightarrow> bitlen n = Suc (bitlen (n div 2))"
  by (simp add: bitlen.simps)

lemma bitlen_nonpos: "n \<le> 0 \<Longrightarrow> bitlen n = 0"
  by (simp add: bitlen.simps)

lemma bitlen_bounds: "0 < n \<Longrightarrow> 2 ^ (bitlen n - 1) \<le> n \<and> n < 2 ^ bitlen n"
proof (induction n rule: bitlen.induct)
  case (1 n)
  have bl: "bitlen n = Suc (bitlen (n div 2))" using "1.prems" by (rule bitlen_pos)
  show ?case
  proof (cases "n div 2 \<le> 0")
    case True
    with "1.prems" have "n = 1" by simp
    then show ?thesis using bl by (simp add: bitlen_nonpos)
  next
    case False
    then have pos: "0 < n div 2" by simp
    from "1.prems" have "\<not> n \<le> 0" by simp
    from "1.IH" [OF this pos]
    have lo: "2 ^ (bitlen (n div 2) - 1) \<le> n div 2" and hi: "n div 2 < 2 ^ bitlen (n div 2)"
      by simp_all
    obtain k where k: "bitlen (n div 2) = Suc k" using bitlen_pos [OF pos] by simp
    from lo k have "2 * 2 ^ k \<le> 2 * (n div 2)" by simp
    also have "\<dots> \<le> n" by simp
    finally have l: "2 ^ (bitlen n - 1) \<le> n" using bl k by simp
    from hi have "n div 2 + 1 \<le> 2 ^ bitlen (n div 2)" by simp
    then have "2 * (n div 2) + 2 \<le> 2 * 2 ^ bitlen (n div 2)" by simp
    moreover have "n < 2 * (n div 2) + 2" by presburger
    ultimately have "n < 2 ^ bitlen n" using bl by simp
    with l show ?thesis by simp
  qed
qed

lemma ilog2_bounds:
  assumes "0 < x"
  shows "pow2 (ilog2 x) \<le> x" and "x < pow2 (ilog2 x + 1)"
proof -
  have "pow2 (ilog2 x) \<le> x \<and> x < pow2 (ilog2 x + 1)"
  proof (cases "1 \<le> x")
    case True
    let ?n = "\<lfloor>x\<rfloor>"
    have n: "0 < ?n" using True by simp
    from bitlen_bounds [OF n] have lo: "2 ^ (bitlen ?n - 1) \<le> ?n" and hi: "?n < 2 ^ bitlen ?n"
      by simp_all
    obtain k where k: "bitlen ?n = Suc k" using bitlen_pos [OF n] by simp
    have e: "ilog2 x = int k" using True k by (simp add: ilog2_def)
    have "(2::real) ^ k \<le> of_int ?n" using lo k by (metis diff_Suc_1 of_int_numeral of_int_power of_int_le_iff)
    also have "\<dots> \<le> x" by simp
    finally have l: "pow2 (ilog2 x) \<le> x" by (simp add: e pow2_nat)
    from hi have "?n + 1 \<le> 2 ^ Suc k" using k by simp
    then have "of_int (?n + 1) \<le> (2::real) ^ Suc k" by (metis of_int_numeral of_int_power of_int_le_iff)
    moreover have "x < of_int (?n + 1)" by linarith
    ultimately have "x < 2 ^ Suc k" by linarith
    moreover have "pow2 (int k + 1) = 2 ^ Suc k"
      using pow2_nat [of "Suc k"] by (simp add: add.commute)
    ultimately have "x < pow2 (ilog2 x + 1)" by (simp add: e)
    with l show ?thesis by simp
  next
    case False
    with assms have x1: "x < 1" by simp
    let ?y = "1 / x"
    let ?m = "\<lceil>?y\<rceil> - 1"
    have y1: "1 < ?y" using assms x1 by simp
    then have m: "0 < ?m" by linarith
    from bitlen_bounds [OF m] have lo: "2 ^ (bitlen ?m - 1) \<le> ?m" and hi: "?m < 2 ^ bitlen ?m"
      by simp_all
    obtain k where k: "bitlen ?m = Suc k" using bitlen_pos [OF m] by simp
    have e: "ilog2 x = - int (Suc k)" using False k by (simp add: ilog2_def)
    have my: "of_int ?m < ?y" "?y \<le> of_int ?m + 1" by linarith+
    from hi k have "?m + 1 \<le> 2 ^ Suc k" by simp
    then have "of_int (?m + 1) \<le> (2::real) ^ Suc k" by (metis of_int_numeral of_int_power of_int_le_iff)
    with my(2) have "?y \<le> 2 ^ Suc k" by linarith
    then have "1 / 2 ^ Suc k \<le> x" using assms by (simp add: field_simps)
    then have l: "pow2 (ilog2 x) \<le> x" unfolding e pow2_neg_nat .
    from lo k have "(2::real) ^ k \<le> of_int ?m" by (metis diff_Suc_1 of_int_numeral of_int_power of_int_le_iff)
    with my(1) have "2 ^ k < ?y" by linarith
    then have "x < 1 / 2 ^ k" using assms by (simp add: field_simps)
    moreover have "pow2 (ilog2 x + 1) = 1 / 2 ^ k"
      using pow2_neg_nat [of k] by (simp add: e)
    ultimately show ?thesis using l by simp
  qed
  then show "pow2 (ilog2 x) \<le> x" and "x < pow2 (ilog2 x + 1)" by simp_all
qed

lemma ilog2_unique:
  assumes "0 < x" and "pow2 e \<le> x" and "x < pow2 (e + 1)"
  shows "ilog2 x = e"
proof -
  from ilog2_bounds [OF assms(1)] assms(2,3)
  have "pow2 e < pow2 (ilog2 x + 1)" and "pow2 (ilog2 x) < pow2 (e + 1)" by linarith+
  then show ?thesis by (simp add: pow2_less_iff)
qed

lemma round_even_cases: "round_even z = \<lfloor>z\<rfloor> \<or> round_even z = \<lfloor>z\<rfloor> + 1 \<and> of_int \<lfloor>z\<rfloor> < z"
  by (auto simp: round_even_def)

lemma round_even_int [simp]: "round_even (of_int n) = n"
  by (simp add: round_even_def)


lemma round_even_ge:
  assumes "of_int N \<le> z"
  shows "N \<le> round_even z"
proof -
  from assms have "N \<le> \<lfloor>z\<rfloor>" by (simp add: le_floor_iff)
  with round_even_cases [of z] show ?thesis by auto
qed




text \<open>
  A value \<open>n * 2 ^ (e - 52)\<close> with at most 53 bits in \<open>n\<close>, normal (\<open>2 ^ 52 \<le> \<bar>n\<bar>\<close>) or
  at the smallest exponent, and within range, is a double: rounding returns it unchanged.
\<close>

lemma round_at_exact:
  assumes n0: "n \<noteq> 0" and n53: "\<bar>n\<bar> \<le> 2 ^ 53" and e: "- 1022 \<le> e"
    and norm: "e = - 1022 \<or> 2 ^ 52 \<le> \<bar>n\<bar>"
    and range: "\<bar>of_int n * pow2 (e - 52)\<bar> < pow2 1024"
  shows "rnd (of_int n * pow2 (e - 52)) = Finite (of_int n * pow2 (e - 52))"
proof -
  let ?q = "pow2 (e - 52)"
  let ?r = "of_int n * ?q"
  let ?m = "\<bar>n\<bar>"
  have q: "0 < ?q" by (rule pow2_pos)
  have m: "0 < ?m" using n0 by simp
  have r0: "?r \<noteq> 0" using n0 q by simp
  have absr: "\<bar>?r\<bar> = of_int ?m * ?q" using q by (simp add: abs_mult)
  obtain k where k: "bitlen ?m = Suc k" using bitlen_pos [OF m] by simp
  from bitlen_bounds [OF m] k have lo: "2 ^ k \<le> ?m" and hi: "?m < 2 ^ Suc k" by simp_all
  have lo': "(2::real) ^ k \<le> of_int ?m"
    using lo by (metis of_int_numeral of_int_power of_int_le_iff)
  have hi': "of_int ?m < (2::real) ^ Suc k"
    using hi by (metis of_int_numeral of_int_power of_int_less_iff)
  have "pow2 (int k + (e - 52)) \<le> \<bar>?r\<bar>"
    unfolding absr pow2_add pow2_nat using lo' q by (simp add: mult_right_mono)
  moreover have "\<bar>?r\<bar> < pow2 (int (Suc k) + (e - 52))"
    unfolding absr pow2_add pow2_nat using hi' q by (simp add: mult_strict_right_mono)
  then have "\<bar>?r\<bar> < pow2 (int k + (e - 52) + 1)" by (simp add: add.commute add.left_commute)
  ultimately have il: "ilog2 \<bar>?r\<bar> = int k + (e - 52)"
    using r0 by (intro ilog2_unique) simp_all
  have k53: "k \<le> 53"
  proof (rule ccontr)
    assume "\<not> k \<le> 53"
    then have "54 \<le> k" by simp
    then have "(2::int) ^ 54 \<le> 2 ^ k" by (intro power_increasing) simp_all
    with lo n53 show False by simp
  qed
  show ?thesis
  proof (cases "k = 53")
    case True
    with lo n53 have mm: "?m = 2 ^ 53" by simp
    then obtain h where h: "n = 2 * h" by (cases "0 \<le> n") (auto intro: that [of "2 ^ 52"] that [of "- (2 ^ 52)"])
    have e': "max (ilog2 \<bar>?r\<bar>) (- 1022) = e + 1" using il True e by simp
    have "pow2 (e - 51) = pow2 (1 + (e - 52))" by (rule arg_cong [where f = pow2]) simp
    also have "\<dots> = pow2 1 * ?q" by (rule pow2_add)
    finally have q2: "pow2 (e - 51) = 2 * ?q" by (simp add: pow2_def)
    have "?r / pow2 (e - 51) = of_int h" using q by (simp add: q2 h)
    then have "of_int (round_even (?r / pow2 (e - 51))) * pow2 (e - 51) = ?r"
      by (simp add: q2 h)
    then show ?thesis
      using r0 range by (simp add: rnd_def e' round_at_def to_double_def)
  next
    case False
    with k53 have k52: "k \<le> 52" by simp
    have "max (ilog2 \<bar>?r\<bar>) (- 1022) = e"
    proof (cases "e = - 1022")
      case True
      then show ?thesis using il k52 by simp
    next
      case False
      with norm have "2 ^ 52 \<le> ?m" by simp
      with hi have "(2::int) ^ 52 < 2 ^ Suc k" by linarith
      then have "52 < Suc k" by (intro power_less_imp_less_exp [of "2::int"]) simp_all
      with k52 have "k = 52" by simp
      then show ?thesis using il e by simp
    qed
    moreover have "of_int (round_even (?r / ?q)) * ?q = ?r" using q by simp
    ultimately show ?thesis
      using r0 range by (simp add: rnd_def round_at_def to_double_def)
  qed
qed


section \<open>Arithmetic on doubles\<close>


lemma dabs_dneg [simp]: "dabs (dneg u) = dabs u"
  by (cases u) simp_all






section \<open>Division sites over binary64\<close>





section \<open>Point in polygon over binary64\<close>




section \<open>The binary64 examples, evaluated\<close>

lemmas rnd_eval = rnd_def round_at_def to_double_def ilog2_def pow2_def round_even_def bitlen.simps

lemma EPSILON64_value: "EPSILON64 = Finite (4722366482869645 / 4722366482869645213696)"
  by (simp add: EPSILON64_def rnd_eval)

lemmas binary64_eval = areEqual64_def EPSILON64_value pointsEqual64_def createLine64_def
  lineContains64_def lineIntersection64_def segmentContains64_def segmentIntersection64_def
  dsub_def rnd_eval Let_def

lemma tri_thin64: "map to64 tri_thin =
   [\<lparr>qx = Finite (- 134217727), qy = Finite 134217728\<rparr>,
    \<lparr>qx = Finite 134217728, qy = Finite (- 134217727)\<rparr>,
    \<lparr>qx = Finite (- 134217727), qy = Finite 134217727\<rparr>]"
  by (simp add: tri_thin_def to64_def rnd_eval)

lemma quad_far64: "map to64 quad_far =
   [\<lparr>qx = Finite 2, qy = Finite 17179869185\<rparr>, \<lparr>qx = Finite 524291, qy = Finite 17179869185\<rparr>,
    \<lparr>qx = Finite 524291, qy = Finite 17179869187\<rparr>,
    \<lparr>qx = Finite 524293, qy = Finite 17179869183\<rparr>]"
  by (simp add: quad_far_def to64_def rnd_eval)

lemma tri_thin_edges_cross:
  "interiorCrossing64
    \<lparr>ep1 = \<lparr>qx = Finite (- 134217727), qy = Finite 134217728\<rparr>,
      ep2 = \<lparr>qx = Finite 134217728, qy = Finite (- 134217727)\<rparr>\<rparr>
    \<lparr>ep1 = \<lparr>qx = Finite 134217728, qy = Finite (- 134217727)\<rparr>,
      ep2 = \<lparr>qx = Finite (- 134217727), qy = Finite 134217727\<rparr>\<rparr>"
proof -
  have "segmentIntersection64
    \<lparr>ep1 = \<lparr>qx = Finite (- 134217727), qy = Finite 134217728\<rparr>,
      ep2 = \<lparr>qx = Finite 134217728, qy = Finite (- 134217727)\<rparr>\<rparr>
    \<lparr>ep1 = \<lparr>qx = Finite 134217728, qy = Finite (- 134217727)\<rparr>,
      ep2 = \<lparr>qx = Finite (- 134217727), qy = Finite 134217727\<rparr>\<rparr>
   = Some \<lparr>qx = Finite (268435455 / 2), qy = Finite (- (268435453 / 2))\<rparr>"
    by (simp add: binary64_eval)
  then show ?thesis
    by (simp add: interiorCrossing64_def pointsEqual64_def areEqual64_def EPSILON64_value
        dsub_def rnd_eval)
qed

lemma tri_thin_classified:
  "classifyPolygons64 (map to64 tri_thin) (map to64 tri_thin) = ''Intersecting''"
proof -
  have "crossing64 (map to64 tri_thin) (map to64 tri_thin)"
    unfolding crossing64_def tri_thin64
    using tri_thin_edges_cross by (simp add: getEdges64_def)
  then show ?thesis by (simp add: classifyPolygons64_eq)
qed

lemma quad_far_not_inside:
  "\<not> polygonContains64 (map to64 quad_far) (to64 \<lparr>px = 3, py = 17179869185\<rparr>)"
proof -
  have p: "to64 \<lparr>px = 3, py = 17179869185\<rparr> = \<lparr>qx = Finite 3, qy = Finite 17179869185\<rparr>"
    by (simp add: to64_def rnd_eval)
  show ?thesis
    unfolding quad_far64 p by (simp add: polygonContains64_def binary64_eval)
qed

lemma round_trip_point:
  "lineIntersection64 \<lparr>ka = Finite 6, kb = Finite 3, kc = Finite (- 401279477)\<rparr>
     \<lparr>ka = Finite 7, kb = Finite 4, kc = Finite 941831552\<rparr> =
   Some \<lparr>qx = Finite (6194445333211819 / 4194304), qy = Finite (- (5913930647295317 / 2097152))\<rparr>"
  by (simp add: binary64_eval)

lemma round_trip_fails:
  "\<not> lineContains64 \<lparr>ka = Finite 7, kb = Finite 4, kc = Finite 941831552\<rparr>
    \<lparr>qx = Finite (6194445333211819 / 4194304), qy = Finite (- (5913930647295317 / 2097152))\<rparr>"
  by (simp add: binary64_eval)

lemma rnd_overflow:
  assumes "pow2 1024 \<le> x"
  shows "rnd x = PosInf"
proof -
  have x: "0 < x" using assms pow2_pos [of 1024] by linarith
  let ?e = "ilog2 x"
  have "pow2 1024 < pow2 (?e + 1)" using assms ilog2_bounds(2) [OF x] by linarith
  then have e: "1024 \<le> ?e" by (simp add: pow2_less_iff)
  let ?q = "pow2 (?e - 52)"
  have q: "0 < ?q" by (rule pow2_pos)
  have "pow2 ?e = pow2 ((?e - 52) + 52)" by (rule arg_cong [where f = pow2]) simp
  also have "\<dots> = ?q * pow2 52" by (rule pow2_add)
  also have "pow2 52 = 2 ^ 52" using pow2_nat [of 52] by simp
  finally have q52: "?q * 2 ^ 52 = pow2 ?e" by simp
  have "?q * 2 ^ 52 \<le> x" unfolding q52 by (rule ilog2_bounds(1) [OF x])
  then have "of_int (2 ^ 52) \<le> x / ?q" using q by (simp add: field_simps)
  then have "2 ^ 52 \<le> round_even (x / ?q)" by (rule round_even_ge)
  then have "(2::real) ^ 52 \<le> of_int (round_even (x / ?q))"
    by (metis of_int_numeral of_int_power of_int_le_iff)
  then have "2 ^ 52 * ?q \<le> of_int (round_even (x / ?q)) * ?q"
    using q by (simp add: mult_right_mono)
  then have "pow2 ?e \<le> of_int (round_even (x / ?q)) * ?q"
    using q52 by (simp add: mult.commute)
  moreover have "pow2 1024 \<le> pow2 ?e" using e by (simp add: pow2_le_iff)
  ultimately have "pow2 1024 \<le> \<bar>of_int (round_even (x / ?q)) * ?q\<bar>" by linarith
  moreover have "max ?e (- 1022) = ?e" using e by simp
  ultimately show ?thesis
    using x by (simp add: rnd_def round_at_def to_double_def)
qed

lemma huge_is_double: "rnd huge = Finite huge"
proof -
  have "rnd (of_int (2 ^ 52) * pow2 (600 - 52)) = Finite (of_int (2 ^ 52) * pow2 (600 - 52))"
    by (rule round_at_exact) (simp_all add: pow2_def)
  moreover have "of_int (2 ^ 52) * pow2 (600 - 52) = huge"
    by (simp add: pow2_def huge_def)
  ultimately show ?thesis by simp
qed

lemma huge_squared: "dmul (Finite huge) (Finite huge) = PosInf"
proof -
  have "pow2 1024 \<le> huge * huge" by (simp add: pow2_def huge_def)
  then show ?thesis by (simp add: rnd_overflow)
qed

lemma huge_nonzero: "huge \<noteq> 0"
  by (simp add: huge_def)

lemma overflow_gives_nan:
  "lineIntersection64 \<lparr>ka = Finite huge, kb = Finite 0, kc = Finite huge\<rparr>
     \<lparr>ka = Finite 0, kb = Finite huge, kc = Finite huge\<rparr> =
   Some \<lparr>qx = NaN, qy = NaN\<rparr>"
proof -
  have zero: "dmul (Finite huge) (Finite 0) = Finite 0" "dmul (Finite 0) (Finite huge) = Finite 0"
    "dmul (Finite 0) (Finite 0) = Finite 0"
    by (simp_all add: rnd_def)
  show ?thesis
    by (simp add: lineIntersection64_def areEqual64_def EPSILON64_value dsub_def huge_squared
        zero Let_def del: dmul.simps)
qed

lemma tri_thin_corner1:
  "on_segment \<lparr>px = - 134217727, py = 134217728\<rparr> \<lparr>px = 134217728, py = - 134217727\<rparr> p \<Longrightarrow>
   on_segment \<lparr>px = 134217728, py = - 134217727\<rparr> \<lparr>px = - 134217727, py = 134217727\<rparr> p \<Longrightarrow>
   p = \<lparr>px = 134217728, py = - 134217727\<rparr>"
  by (cases p) (auto simp: on_segment_def)

lemma tri_thin_corner2:
  "on_segment \<lparr>px = 134217728, py = - 134217727\<rparr> \<lparr>px = - 134217727, py = 134217727\<rparr> p \<Longrightarrow>
   on_segment \<lparr>px = - 134217727, py = 134217727\<rparr> \<lparr>px = - 134217727, py = 134217728\<rparr> p \<Longrightarrow>
   p = \<lparr>px = - 134217727, py = 134217727\<rparr>"
  by (cases p) (auto simp: on_segment_def)

lemma tri_thin_corner0:
  "on_segment \<lparr>px = - 134217727, py = 134217727\<rparr> \<lparr>px = - 134217727, py = 134217728\<rparr> p \<Longrightarrow>
   on_segment \<lparr>px = - 134217727, py = 134217728\<rparr> \<lparr>px = 134217728, py = - 134217727\<rparr> p \<Longrightarrow>
   p = \<lparr>px = - 134217727, py = 134217728\<rparr>"
  by (cases p) (auto simp: on_segment_def)

lemma simple_tri_thin: "simple_polygon tri_thin"
  unfolding simple_polygon_def Let_def
proof (intro conjI allI impI)
  show "distinct tri_thin" by (simp add: tri_thin_def)
next
  fix i j p
  assume i: "i < length tri_thin" and j: "j < length tri_thin" and ne: "i \<noteq> j"
    and on: "on_segment (tri_thin ! i) (tri_thin ! ((i + 1) mod length tri_thin)) p \<and>
       on_segment (tri_thin ! j) (tri_thin ! ((j + 1) mod length tri_thin)) p"
  from i j have "i = 0 \<or> i = 1 \<or> i = 2" "j = 0 \<or> j = 1 \<or> j = 2"
    by (auto simp: tri_thin_def)
  with ne on show "j = (i + 1) mod length tri_thin \<and> p = tri_thin ! j \<or>
      i = (j + 1) mod length tri_thin \<and> p = tri_thin ! i"
    using tri_thin_corner0 [of p] tri_thin_corner1 [of p] tri_thin_corner2 [of p]
    by (auto simp: tri_thin_def)
qed




lemma edge0_quad_far:
  "\<lparr>sp1 = \<lparr>px = 2, py = 17179869185\<rparr>, sp2 = \<lparr>px = 524291, py = 17179869185\<rparr>\<rparr>
     \<in> set (getEdges quad_far)"
  by (simp add: getEdges_def quad_far_def)

lemma point_on_edge0_quad_far:
  "on_segment \<lparr>px = 2, py = 17179869185\<rparr> \<lparr>px = 524291, py = 17179869185\<rparr>
     \<lparr>px = 3, py = 17179869185\<rparr>"
  unfolding on_segment_def by (intro exI [of _ "1 / 524289"]) simp

lemma nearly_parallel_lines:
  "lineIntersection \<lparr>la = 1, lb = 0, lc = 0\<rparr> \<lparr>la = 1, lb = 1 / 10000000, lc = 0\<rparr> = None"
  by (simp add: lineIntersection_def areEqual_def EPSILON_def)

section \<open>The claims\<close>

text \<open>
  C1. For every pair of polygons \<open>A\<close> and \<open>B\<close>, the classification is \<open>Intersecting\<close> if
  and only if some edge of \<open>A\<close> and some edge of \<open>B\<close> have a segment intersection point
  that is not equal, within \<open>EPSILON\<close>, to any of the four endpoints of the two edges.
  Nothing else is asked, so this label wins over every other one. It holds of
  \<^verbatim>\<open>classifyPolygons\<close> and of \<^verbatim>\<open>Polygon::classify\<close>, for all vertex lists.
\<close>

theorem intersecting_iff_crossing:
  "(classifyPolygons A B = ''Intersecting'') = crossing A B \<and>
   (Polygon_classify A B = ''Intersecting'') = crossing A B"
  by (simp add: classifyPolygons_eq Polygon_classify_eq)

theorem intersecting_iff_crossing_witness:
  "crossing tri_outer tri_cut \<and>
   classifyPolygons tri_outer tri_cut = ''Intersecting'' \<and>
   Polygon_classify tri_outer tri_cut = ''Intersecting''"
  using intersecting_iff_crossing [of tri_outer tri_cut] crossing_outer_cut by simp

text \<open>
  C2, as stated, leaves the direction of the collinearity test open: both endpoints of
  one edge lie on the line through the other. The source takes the line through the edge
  of the first polygon only. The first edges of \<open>tri_large\<close> and \<open>tri_tiny\<close> are collinear
  in the open sense (the endpoints of the long edge lie within \<open>EPSILON\<close> on the line
  through the short one), their bounding boxes overlap, and no edge pair crosses; yet the
  classification is \<open>Disjoint (Outside)\<close>, not \<open>Touching\<close>.
\<close>

theorem touching_open_direction_counterexample:
  "collinearEither (getEdges tri_large ! 0) (getEdges tri_tiny ! 0) \<and>
   boxesOverlap (getEdges tri_large ! 0) (getEdges tri_tiny ! 0) \<and>
   \<not> crossing tri_large tri_tiny \<and>
   classifyPolygons tri_large tri_tiny = ''Disjoint (Outside)'' \<and>
   Polygon_classify tri_large tri_tiny = ''Disjoint (Outside)''"
  using first_edges_collinearEither first_edges_boxesOverlap no_crossing_large_tiny
    classify_large_tiny
  by simp

text \<open>
  C2, amended. The classification is \<open>Touching\<close> if and only if no edge pair has an
  interior crossing and either some vertex of one polygon lies on some edge of the other
  (\<^verbatim>\<open>segmentContains\<close>), or some edge of \<open>A\<close> and some edge of \<open>B\<close> are such that both
  endpoints of the edge of \<open>B\<close> lie within \<open>EPSILON\<close> on the line through the edge of \<open>A\<close>,
  and their bounding boxes overlap on the x axis and on the y axis, each axis on its own.
\<close>

theorem touching_iff_contact:
  "(classifyPolygons A B = ''Touching'') =
     (\<not> crossing A B \<and> (vertexOnEdge A B \<or> vertexOnEdge B A \<or> collinearContact A B)) \<and>
   (Polygon_classify A B = ''Touching'') =
     (\<not> crossing A B \<and> (vertexOnEdge A B \<or> vertexOnEdge B A \<or> collinearContact A B))"
  by (simp add: classifyPolygons_eq Polygon_classify_eq)

theorem touching_iff_contact_witness:
  "\<not> crossing tri_tiny tri_large \<and> collinearContact tri_tiny tri_large \<and>
   classifyPolygons tri_tiny tri_large = ''Touching'' \<and>
   Polygon_classify tri_tiny tri_large = ''Touching''"
  using touching_iff_contact [of tri_tiny tri_large] no_crossing_tiny_large
    collinearContact_tiny_large
  by simp

text \<open>
  C3. When neither an interior crossing nor a boundary contact is detected, the
  classification is \<open>Disjoint (Enclosed)\<close> if every vertex of \<open>A\<close> passes the
  point-in-polygon test of \<open>B\<close> or every vertex of \<open>B\<close> passes that of \<open>A\<close>, and
  \<open>Disjoint (Outside)\<close> otherwise.
\<close>

theorem enclosed_or_outside:
  assumes "\<not> crossing A B"
    and "\<not> vertexOnEdge A B" and "\<not> vertexOnEdge B A" and "\<not> collinearContact A B"
  shows "classifyPolygons A B =
      (if verticesInside A B \<or> verticesInside B A
       then ''Disjoint (Enclosed)'' else ''Disjoint (Outside)'') \<and>
    Polygon_classify A B =
      (if verticesInside A B \<or> verticesInside B A
       then ''Disjoint (Enclosed)'' else ''Disjoint (Outside)'')"
  using assms by (simp add: classifyPolygons_eq Polygon_classify_eq)

theorem enclosed_or_outside_witness:
  "\<not> crossing tri_outer tri_inner \<and>
   \<not> vertexOnEdge tri_outer tri_inner \<and> \<not> vertexOnEdge tri_inner tri_outer \<and>
   \<not> collinearContact tri_outer tri_inner \<and>
   classifyPolygons tri_outer tri_inner = ''Disjoint (Enclosed)'' \<and>
   Polygon_classify tri_outer tri_inner = ''Disjoint (Enclosed)''"
proof -
  have h: "\<not> crossing tri_outer tri_inner" "\<not> vertexOnEdge tri_outer tri_inner"
    "\<not> vertexOnEdge tri_inner tri_outer" "\<not> collinearContact tri_outer tri_inner"
    using no_crossing_outer_inner no_contact_outer_inner by simp_all
  show ?thesis
    using h enclosed_or_outside [OF h] inside_inner_outer by simp
qed

text \<open>
  C6. \<^verbatim>\<open>lineIntersection\<close> and \<^verbatim>\<open>Line::intersection\<close>: when the determinant
  \<open>a1 * b2 - a2 * b1\<close> is within \<open>EPSILON\<close> of zero the result is the negative one
  (\<open>None\<close>, a value and not an exception); otherwise it is the point with
  \<open>x = (b1 * c2 - b2 * c1) / determinant\<close> and \<open>y = (a2 * c1 - a1 * c2) / determinant\<close>.
\<close>

theorem lineIntersection_cramer:
  "lineIntersection l1 l2 =
     (if \<bar>la l1 * lb l2 - la l2 * lb l1\<bar> < EPSILON then None
      else Some \<lparr>px = (lb l1 * lc l2 - lb l2 * lc l1) / (la l1 * lb l2 - la l2 * lb l1),
                 py = (la l2 * lc l1 - la l1 * lc l2) / (la l1 * lb l2 - la l2 * lb l1)\<rparr>) \<and>
   Line_intersection l1 l2 = lineIntersection l1 l2"
  by (simp add: lineIntersection_def Line_intersection_eq areEqual_zero Let_def)

theorem lineIntersection_cramer_witness:
  "lineIntersection \<lparr>la = 0, lb = - 8, lc = 0\<rparr> \<lparr>la = 4, lb = 0, lc = - 8\<rparr> =
     Some \<lparr>px = 2, py = 0\<rparr> \<and>
   lineIntersection \<lparr>la = 0, lb = - 8, lc = 0\<rparr> \<lparr>la = 0, lb = 3, lc = 1\<rparr> = None"
  using lineIntersection_cramer [of "\<lparr>la = 0, lb = - 8, lc = 0\<rparr>" "\<lparr>la = 4, lb = 0, lc = - 8\<rparr>"]
    lineIntersection_cramer [of "\<lparr>la = 0, lb = - 8, lc = 0\<rparr>" "\<lparr>la = 0, lb = 3, lc = 1\<rparr>"]
  by (simp add: EPSILON_def)

text \<open>
  C9. For every pair of polygons, \<^verbatim>\<open>classifyPolygons\<close> of \<^verbatim>\<open>polygon.c\<close> and
  \<^verbatim>\<open>Polygon::classify\<close> of \<^verbatim>\<open>polygon.cpp\<close> return the same label.
\<close>

theorem implementations_agree: "classifyPolygons A B = Polygon_classify A B"
  by (simp add: classifyPolygons_eq Polygon_classify_eq)

theorem implementations_agree_witness:
  "classifyPolygons tri_outer tri_cut = Polygon_classify tri_outer tri_cut"
  using implementations_agree [of tri_outer tri_cut] .

text \<open>
  C10, as stated, fails: \<open>tri_large\<close> against \<open>tri_tiny\<close> is \<open>Disjoint (Outside)\<close>, and
  \<open>tri_tiny\<close> against \<open>tri_large\<close> is \<open>Touching\<close>. Both are simple triangles.
\<close>

theorem classify_symmetry_counterexample:
  "classifyPolygons tri_large tri_tiny = ''Disjoint (Outside)'' \<and>
   classifyPolygons tri_tiny tri_large = ''Touching'' \<and>
   Polygon_classify tri_large tri_tiny = ''Disjoint (Outside)'' \<and>
   Polygon_classify tri_tiny tri_large = ''Touching''"
  using classify_large_tiny classify_tiny_large by simp

text \<open>
  C10, amended. \<open>Intersecting\<close> is symmetric: \<open>A\<close> against \<open>B\<close> is \<open>Intersecting\<close> if and
  only if \<open>B\<close> against \<open>A\<close> is. The whole classification is symmetric for every pair on
  which the collinear-contact test, which takes its line from an edge of the first
  polygon, gives the same answer in both orders.
\<close>

theorem classify_symmetric_up_to_collinear_test:
  "((classifyPolygons A B = ''Intersecting'') = (classifyPolygons B A = ''Intersecting'')) \<and>
   ((Polygon_classify A B = ''Intersecting'') = (Polygon_classify B A = ''Intersecting'')) \<and>
   (collinearContact A B = collinearContact B A \<longrightarrow>
      classifyPolygons A B = classifyPolygons B A \<and>
      Polygon_classify A B = Polygon_classify B A)"
  using crossing_commute [of A B]
  by (auto simp: classifyPolygons_eq Polygon_classify_eq)

theorem classify_symmetric_up_to_collinear_test_witness:
  "collinearContact tri_outer tri_inner = collinearContact tri_inner tri_outer \<and>
   classifyPolygons tri_outer tri_inner = classifyPolygons tri_inner tri_outer \<and>
   Polygon_classify tri_outer tri_inner = Polygon_classify tri_inner tri_outer"
  using classify_symmetric_up_to_collinear_test [of tri_outer tri_inner]
    no_contact_outer_inner no_collinearContact_inner_outer
  by simp

section \<open>The claims that depend on rounding\<close>

text \<open>
  C4, as stated, fails in binary64. \<open>tri_thin\<close> is a simple triangle with integer
  coordinates near \<open>2 ^ 27\<close>, all of them doubles. Its first two edges meet in their common
  vertex \<open>(134217728, -134217727)\<close>; the source computes the point
  \<open>(134217727.5, -134217726.5)\<close> instead, which passes \<^verbatim>\<open>segmentContains\<close> of both
  edges and is not within \<open>EPSILON\<close> of any endpoint. The triangle against itself is
  \<open>Intersecting\<close>, not \<open>Touching\<close>.
\<close>

theorem self_touching_binary64_counterexample:
  "simple_polygon tri_thin \<and> 3 \<le> length tri_thin \<and>
   classifyPolygons64 (map to64 tri_thin) (map to64 tri_thin) = ''Intersecting''"
  using simple_tri_thin tri_thin_classified by (simp add: tri_thin_def)



text \<open>
  C5, as stated, fails in binary64. The point \<open>(3, 17179869185)\<close> lies exactly on the
  first, horizontal edge of \<open>quad_far\<close>; all coordinates are integers and doubles. For that
  edge the source computes the residual \<open>a * x + b * y + c\<close> as \<open>2\<close>, not \<open>0\<close>, because the
  products round at \<open>2 ^ 53\<close>; the edge test fails, the ray cast counts two crossings, and
  \<^verbatim>\<open>polygonContains\<close> returns \<^verbatim>\<open>false\<close>.
\<close>

theorem boundary_binary64_counterexample:
  "\<lparr>sp1 = \<lparr>px = 2, py = 17179869185\<rparr>, sp2 = \<lparr>px = 524291, py = 17179869185\<rparr>\<rparr>
     \<in> set (getEdges quad_far) \<and>
   on_segment \<lparr>px = 2, py = 17179869185\<rparr> \<lparr>px = 524291, py = 17179869185\<rparr>
     \<lparr>px = 3, py = 17179869185\<rparr> \<and>
   \<not> polygonContains64 (map to64 quad_far) (to64 \<lparr>px = 3, py = 17179869185\<rparr>)"
  using edge0_quad_far point_on_edge0_quad_far quad_far_not_inside by simp



text \<open>
  C7, as stated, fails in binary64: the guard tests the denominator only, and does not keep
  NaN and infinity out. \<open>huge = 2 ^ 600\<close> is a double. For the lines with coefficients
  \<open>(huge, 0, huge)\<close> and \<open>(0, huge, huge)\<close> the determinant overflows to \<open>+\<infinity>\<close>, which is
  not within \<open>EPSILON\<close> of zero; both numerators overflow to \<open>-\<infinity>\<close>, and both divisions
  return NaN.
\<close>

theorem division_nan_counterexample:
  "rnd huge = Finite huge \<and>
   lineIntersection64 \<lparr>ka = Finite huge, kb = Finite 0, kc = Finite huge\<rparr>
     \<lparr>ka = Finite 0, kb = Finite huge, kc = Finite huge\<rparr> =
   Some \<lparr>qx = NaN, qy = NaN\<rparr>"
  using huge_is_double overflow_gives_nan by simp



text \<open>
  C8, as stated, fails twice. In binary64, for the lines \<open>6 x + 3 y - 401279477 = 0\<close> and
  \<open>7 x + 4 y + 941831552 = 0\<close> (determinant \<open>3\<close>) the point returned is rounded, and the
  residual of the second line at that point is about \<open>1.9e-6\<close>: \<^verbatim>\<open>lineContains\<close> fails.
  And the lines \<open>x = 0\<close> and \<open>x + y / 10000000 = 0\<close> are not parallel, yet no point is
  returned, because their determinant is within \<open>EPSILON\<close> of zero.
\<close>

theorem round_trip_binary64_counterexample:
  "lineIntersection64 \<lparr>ka = Finite 6, kb = Finite 3, kc = Finite (- 401279477)\<rparr>
     \<lparr>ka = Finite 7, kb = Finite 4, kc = Finite 941831552\<rparr> =
     Some \<lparr>qx = Finite (6194445333211819 / 4194304),
           qy = Finite (- (5913930647295317 / 2097152))\<rparr> \<and>
   \<not> lineContains64 \<lparr>ka = Finite 7, kb = Finite 4, kc = Finite 941831552\<rparr>
     \<lparr>qx = Finite (6194445333211819 / 4194304),
      qy = Finite (- (5913930647295317 / 2097152))\<rparr> \<and>
   lineIntersection \<lparr>la = 1, lb = 0, lc = 0\<rparr> \<lparr>la = 1, lb = 1 / 10000000, lc = 0\<rparr> = None"
  using round_trip_point round_trip_fails nearly_parallel_lines by simp



end
